theory Spec2Isabelle
  imports Main "HOL-Library.Word"
begin

section \<open>Configuration\<close>

text \<open>
  The constants of \<^verbatim>\<open>app.py\<close>, lines 34 and 35.
\<close>

definition MAX_CONTENT_LENGTH :: nat where
  "MAX_CONTENT_LENGTH = 16 * 1024 * 1024"

definition ALLOWED_EXTENSIONS :: "string set" where
  "ALLOWED_EXTENSIONS = {''pdf'', ''png'', ''jpg'', ''jpeg'', ''txt'', ''doc'', ''docx''}"

section \<open>Exceptions and page messages\<close>

text \<open>
  The Python exceptions the handlers can meet, each with the text that \<^verbatim>\<open>str(e)\<close>
  yields. An \<open>IntegrityError\<close> carries the text of the storage engine. An \<open>OSError\<close>
  carries the name of the error of the operating system; Python's text adds the error
  number and the path, which starts with the working directory.
\<close>

datatype exn =
    ValueError string
  | AttributeError string
  | KeyError string
  | IntegrityError string
  | OSError string

fun str :: "exn \<Rightarrow> string" where
  "str (ValueError m) = m"
| "str (AttributeError m) = m"
| "str (KeyError m) = m"
| "str (IntegrityError m) = m"
| "str (OSError m) = m"

text \<open>
  The exception of an attribute read on \<^verbatim>\<open>None\<close>; character \<open>0x27\<close> is the single
  quote of its text.
\<close>

definition none_has_no_attribute :: "string \<Rightarrow> exn" where
  "none_has_no_attribute attr =
     AttributeError ([CHR 0x27] @ ''NoneType'' @ [CHR 0x27] @ '' object has no attribute '' @
       [CHR 0x27] @ attr @ [CHR 0x27])"

text \<open>
  What a handler shows on the page: \<^verbatim>\<open>st.error\<close>, \<^verbatim>\<open>st.success\<close>,
  \<^verbatim>\<open>st.warning\<close>, \<^verbatim>\<open>st.info\<close>, or an exception that no \<^verbatim>\<open>except\<close> catches.
\<close>

datatype message =
    Error string
  | Success string
  | Warning string
  | Info string
  | Uncaught exn

section \<open>Strings\<close>

text \<open>
  \<^verbatim>\<open>str.lower\<close> on the ASCII letters; every other character is kept. No character
  outside ASCII lowers to a letter of an allowed extension, so for \<open>allowed_file\<close> this
  agrees with Python's Unicode lowering.
\<close>

definition lower_char :: "char \<Rightarrow> char" where
  "lower_char c =
     (case map_of (zip ''ABCDEFGHIJKLMNOPQRSTUVWXYZ'' ''abcdefghijklmnopqrstuvwxyz'') c of
        Some l \<Rightarrow> l
      | None \<Rightarrow> c)"

definition lower :: "string \<Rightarrow> string" where
  "lower s = map lower_char s"

text \<open>
  \<^verbatim>\<open>s.rsplit(sep, 1)[1]\<close> for a one-character separator that occurs in \<open>s\<close>: the text
  after the last separator.
\<close>

definition rsplit1_last :: "char \<Rightarrow> string \<Rightarrow> string" where
  "rsplit1_last sep s = rev (takeWhile (\<lambda>c. c \<noteq> sep) (rev s))"

text \<open>\<^verbatim>\<open>s.replace(a, b)\<close> for one-character \<open>a\<close> and \<open>b\<close>.\<close>

definition replace :: "char \<Rightarrow> char \<Rightarrow> string \<Rightarrow> string" where
  "replace a b s = map (\<lambda>c. if c = a then b else c) s"

section \<open>File helpers\<close>

definition allowed_file :: "string \<Rightarrow> bool" where
  "allowed_file filename =
     (if CHR ''.'' \<notin> set filename then False
      else (let ext = lower (rsplit1_last CHR ''.'' filename)
            in ext \<in> ALLOWED_EXTENSIONS))"

text \<open>
  \<open>secure_filename\<close> replaces the slash, the backslash (character \<open>0x5C\<close>) and the space
  by an underscore, in this order.
\<close>

definition secure_filename :: "string \<Rightarrow> string" where
  "secure_filename filename =
     replace CHR '' '' CHR ''_'' (replace (CHR 0x5C) CHR ''_'' (replace CHR ''/'' CHR ''_'' filename))"

text \<open>
  \<open>unique_filename\<close> reads the clock and the random generator. Their results are
  arguments here: \<open>ts\<close> is \<^verbatim>\<open>datetime.utcnow().strftime("%Y%m%d%H%M%S")\<close> and \<open>salt\<close>
  is \<^verbatim>\<open>secrets.token_hex(6)\<close>.
\<close>

definition unique_filename :: "string \<Rightarrow> string \<Rightarrow> string \<Rightarrow> string" where
  "unique_filename ts salt filename = ts @ ''_'' @ salt @ ''_'' @ secure_filename filename"

text \<open>
  The shapes of the two library results: fourteen decimal digits, and twelve lower-case
  hexadecimal digits (six random bytes).
\<close>

definition is_timestamp :: "string \<Rightarrow> bool" where
  "is_timestamp ts = (length ts = 14 \<and> list_all (\<lambda>c. c \<in> set ''0123456789'') ts)"

definition is_token_hex6 :: "string \<Rightarrow> bool" where
  "is_token_hex6 salt = (length salt = 12 \<and> list_all (\<lambda>c. c \<in> set ''0123456789abcdef'') salt)"

text \<open>
  An uploaded file as \<^verbatim>\<open>st.file_uploader\<close> returns it: its \<open>name\<close> and the bytes that
  \<^verbatim>\<open>read()\<close> gives. The upload folder is a map from stored names to contents.
\<close>

type_synonym byte = "8 word"

record uploaded_file =
  name :: string
  data :: "byte list"

type_synonym file_store = "string \<rightharpoonup> byte list"

text \<open>
  Lines 172 to 174: \<^verbatim>\<open>open(path, "wb")\<close> and the write, for the path of \<open>fname\<close> in the
  upload folder. Python refuses a path with a zero byte, and the file system refuses a
  name of more than 255 bytes; in both cases nothing is stored. Failures that do not
  depend on the name (a full disk, a folder that was removed) are left out.
\<close>

definition NAME_MAX :: nat where
  "NAME_MAX = 255"

definition write_blob :: "file_store \<Rightarrow> string \<Rightarrow> byte list \<Rightarrow> exn + file_store" where
  "write_blob fs fname d =
     (if CHR 0x00 \<in> set fname then Inl (ValueError ''embedded null byte'')
      else if length fname > NAME_MAX then Inl (OSError ''File name too long'')
      else Inr (fs(fname \<mapsto> d)))"

definition save_uploaded_file ::
  "string \<Rightarrow> string \<Rightarrow> file_store \<Rightarrow> uploaded_file option \<Rightarrow> exn + (string \<times> file_store)" where
  "save_uploaded_file ts salt fs uploaded =
     (case uploaded of
        None \<Rightarrow> Inl (ValueError ''No file provided.'')
      | Some f \<Rightarrow>
          let filename = name f in
          if \<not> allowed_file filename then Inl (ValueError ''File type not allowed.'')
          else
            let d = data f in
            if length d > MAX_CONTENT_LENGTH then Inl (ValueError ''File too large.'')
            else
              let fname = unique_filename ts salt filename
              in case write_blob fs fname d of
                   Inl e \<Rightarrow> Inl e
                 | Inr fs' \<Rightarrow> Inr (fname, fs'))"

section \<open>Storage layer\<close>

text \<open>
  The five tables of \<^verbatim>\<open>app.py\<close>, lines 45 to 132. A primary key is a \<open>nat\<close>, a
  \<^verbatim>\<open>Date\<close> is a day number and a \<^verbatim>\<open>DateTime\<close> a number of seconds, both \<open>int\<close>; a
  nullable column is an \<open>option\<close>. Column names that several tables share, and \<open>notes\<close>, carry the
  initial of their table.
\<close>

record User =
  u_id :: nat
  username :: string
  email :: string
  password_hash :: "string option"
  user_type :: string
  phone :: "string option"
  created_at :: "int option"

record Patient =
  p_id :: nat
  p_user_id :: nat
  p_first_name :: string
  p_last_name :: string
  date_of_birth :: int
  gender :: string
  address :: "string option"
  emergency_contact :: "string option"

record Doctor =
  d_id :: nat
  d_user_id :: nat
  d_first_name :: string
  d_last_name :: string
  specialization :: string
  license_number :: string
  hospital :: "string option"

record LabResult =
  r_id :: nat
  patient_id :: nat
  test_type :: string
  test_date :: int
  result_date :: int
  r_status :: "string option"
  file_path :: "string option"
  r_notes :: "string option"
  lab_technician :: "string option"

record Notification =
  n_id :: nat
  lab_result_id :: nat
  notification_type :: string
  sent_at :: "int option"
  n_status :: "string option"
  recipient :: string

text \<open>
  The committed content of the database: each table is the list of its rows in
  insertion order.
\<close>

record database =
  users :: "User list"
  patients :: "Patient list"
  doctors :: "Doctor list"
  lab_results :: "LabResult list"
  notifications :: "Notification list"

text \<open>The engine gives a new row the largest key of its table plus one, from 1.\<close>

definition next_id :: "nat list \<Rightarrow> nat" where
  "next_id ids = Suc (fold max ids 0)"

subsection \<open>Queries\<close>

definition get_user_by_username :: "database \<Rightarrow> string \<Rightarrow> User option" where
  "get_user_by_username db un = find (\<lambda>u. username u = un) (users db)"

definition get_user_by_email :: "database \<Rightarrow> string \<Rightarrow> User option" where
  "get_user_by_email db em = find (\<lambda>u. email u = em) (users db)"

definition get_doctor_by_license :: "database \<Rightarrow> string \<Rightarrow> Doctor option" where
  "get_doctor_by_license db lic = find (\<lambda>d. license_number d = lic) (doctors db)"

text \<open>\<^verbatim>\<open>db.query(User).get(uid)\<close> and \<^verbatim>\<open>db.query(Patient).get(pid)\<close>.\<close>

definition get_user :: "database \<Rightarrow> nat \<Rightarrow> User option" where
  "get_user db uid = find (\<lambda>u. u_id u = uid) (users db)"

definition get_patient :: "database \<Rightarrow> nat \<Rightarrow> Patient option" where
  "get_patient db pid = find (\<lambda>p. p_id p = pid) (patients db)"

text \<open>
  \<^verbatim>\<open>order_by(LabResult.test_date.desc())\<close>; the engine leaves the order of rows with
  equal dates open, here they keep their insertion order.
\<close>

definition order_by_test_date_desc :: "LabResult list \<Rightarrow> LabResult list" where
  "order_by_test_date_desc rs = sort_key (\<lambda>r. - test_date r) rs"

subsection \<open>Inserts\<close>

text \<open>
  An insert assigns the key and checks the \<^verbatim>\<open>unique=True\<close> columns of its table. The
  \<^verbatim>\<open>nullable=False\<close> columns cannot be violated by a value of their type here, and
  the engine is SQLite without the foreign-key pragma, so a foreign key is not checked.
\<close>

definition insert_user :: "database \<Rightarrow> User \<Rightarrow> exn + (User \<times> database)" where
  "insert_user db u =
     (if list_ex (\<lambda>v. username v = username u) (users db)
        then Inl (IntegrityError ''UNIQUE constraint failed: user.username'')
      else if list_ex (\<lambda>v. email v = email u) (users db)
        then Inl (IntegrityError ''UNIQUE constraint failed: user.email'')
      else
        let u' = u\<lparr>u_id := next_id (map u_id (users db))\<rparr>
        in Inr (u', db\<lparr>users := users db @ [u']\<rparr>))"

definition insert_patient :: "database \<Rightarrow> Patient \<Rightarrow> Patient \<times> database" where
  "insert_patient db p =
     (let p' = p\<lparr>p_id := next_id (map p_id (patients db))\<rparr>
      in (p', db\<lparr>patients := patients db @ [p']\<rparr>))"

definition insert_doctor :: "database \<Rightarrow> Doctor \<Rightarrow> exn + (Doctor \<times> database)" where
  "insert_doctor db d =
     (if list_ex (\<lambda>e. license_number e = license_number d) (doctors db)
        then Inl (IntegrityError ''UNIQUE constraint failed: doctor.license_number'')
      else
        let d' = d\<lparr>d_id := next_id (map d_id (doctors db))\<rparr>
        in Inr (d', db\<lparr>doctors := doctors db @ [d']\<rparr>))"

definition insert_lab_result :: "database \<Rightarrow> LabResult \<Rightarrow> LabResult \<times> database" where
  "insert_lab_result db r =
     (let r' = r\<lparr>r_id := next_id (map r_id (lab_results db))\<rparr>
      in (r', db\<lparr>lab_results := lab_results db @ [r']\<rparr>))"

definition insert_notification :: "database \<Rightarrow> Notification \<Rightarrow> Notification \<times> database" where
  "insert_notification db n =
     (let n' = n\<lparr>n_id := next_id (map n_id (notifications db))\<rparr>
      in (n', db\<lparr>notifications := notifications db @ [n']\<rparr>))"

section \<open>Session\<close>

text \<open>The three keys of \<^verbatim>\<open>st.session_state\<close> that the application uses.\<close>

record session_state =
  ss_user_id :: "nat option"
  ss_username :: "string option"
  ss_user_type :: "string option"

definition login_user_in_session :: "session_state \<Rightarrow> User \<Rightarrow> session_state" where
  "login_user_in_session ss user_obj =
     ss\<lparr>ss_user_id := Some (u_id user_obj),
        ss_username := Some (username user_obj),
        ss_user_type := Some (user_type user_obj)\<rparr>"

definition logout_user_from_session :: "session_state \<Rightarrow> session_state" where
  "logout_user_from_session ss =
     ss\<lparr>ss_user_id := None, ss_username := None, ss_user_type := None\<rparr>"

text \<open>Python's truth value of \<^verbatim>\<open>st.session_state.get('user_id')\<close>: set and not zero.\<close>

definition logged_in :: "session_state \<Rightarrow> bool" where
  "logged_in ss = (case ss_user_id ss of None \<Rightarrow> False | Some uid \<Rightarrow> uid \<noteq> 0)"

definition current_user :: "database \<Rightarrow> session_state \<Rightarrow> User option" where
  "current_user db ss =
     (if \<not> logged_in ss then None
      else case ss_user_id ss of None \<Rightarrow> None | Some uid \<Rightarrow> get_user db uid)"

section \<open>Register\<close>

text \<open>
  The fields of the registration form (lines 235 to 263). The text inputs give a string,
  empty when nothing was typed; the date input and the gender select box always give a
  value. \<open>check_password\<close> and \<open>set_password\<close> call the hashing library, which is an
  argument of the handlers: \<open>gen\<close> is \<^verbatim>\<open>generate_password_hash\<close> and \<open>chk\<close> is
  \<^verbatim>\<open>check_password_hash\<close>.
\<close>

record register_form =
  role :: string
  f_username :: string
  f_email :: string
  f_password :: string
  f_phone :: string
  f_first_name :: string
  f_last_name :: string
  f_dob :: int
  f_gender :: string
  f_address :: string
  f_emergency_contact :: string
  f_specialization :: string
  f_license_number :: string
  f_hospital :: string

definition set_password :: "(string \<Rightarrow> string) \<Rightarrow> User \<Rightarrow> string \<Rightarrow> User" where
  "set_password gen u password = u\<lparr>password_hash := Some (gen password)\<rparr>"

definition check_password :: "(string \<Rightarrow> string \<Rightarrow> bool) \<Rightarrow> User \<Rightarrow> string \<Rightarrow> bool" where
  "check_password chk u password =
     (case password_hash u of
        None \<Rightarrow> False
      | Some h \<Rightarrow> if h = [] then False else chk h password)"

text \<open>
  The handler of lines 265 to 310, on the committed database; \<open>now\<close> is the clock read
  for \<open>created_at\<close>. The user is flushed first, the profile is flushed by the commit, and
  an exception inside the \<^verbatim>\<open>try\<close> rolls back to the database the request started from.
\<close>

definition register ::
  "(string \<Rightarrow> string) \<Rightarrow> int \<Rightarrow> database \<Rightarrow> register_form \<Rightarrow> database \<times> message" where
  "register gen now db form =
     (if f_username form = [] \<or> f_email form = [] \<or> f_password form = []
        then (db, Error ''Username, email and password are required.'')
      else if get_user_by_username db (f_username form) \<noteq> None
        then (db, Error ''Username already exists. Try another.'')
      else if get_user_by_email db (f_email form) \<noteq> None
        then (db, Error ''Email already exists. Try another.'')
      else if role form = ''doctor'' \<and> get_doctor_by_license db (f_license_number form) \<noteq> None
        then (db, Error ''License number already registered.'')
      else
        let user = set_password gen
              \<lparr>u_id = 0, username = f_username form, email = f_email form,
               password_hash = None, user_type = role form, phone = Some (f_phone form),
               created_at = Some now\<rparr> (f_password form)
        in case insert_user db user of
             Inl e \<Rightarrow> (db, Error (''Error during registration: '' @ str e))
           | Inr (user', db1) \<Rightarrow>
               if role form = ''patient'' then
                 let patient =
                       \<lparr>p_id = 0, p_user_id = u_id user', p_first_name = f_first_name form,
                        p_last_name = f_last_name form, date_of_birth = f_dob form,
                        gender = f_gender form, address = Some (f_address form),
                        emergency_contact = Some (f_emergency_contact form)\<rparr>
                 in (snd (insert_patient db1 patient),
                     Success ''Registration successful! You can now login.'')
               else if role form = ''doctor'' then
                 let doctor =
                       \<lparr>d_id = 0, d_user_id = u_id user', d_first_name = f_first_name form,
                        d_last_name = f_last_name form,
                        specialization = f_specialization form,
                        license_number = f_license_number form,
                        hospital = Some (f_hospital form)\<rparr>
                 in case insert_doctor db1 doctor of
                      Inl e \<Rightarrow> (db, Error (''Error during registration: '' @ str e))
                    | Inr (doctor', db2) \<Rightarrow>
                        (db2, Success ''Registration successful! You can now login.'')
               else (db1, Success ''Registration successful! You can now login.''))"

section \<open>Login\<close>

text \<open>The handler of lines 321 to 329: the new session state and the message.\<close>

definition login ::
  "(string \<Rightarrow> string \<Rightarrow> bool) \<Rightarrow> database \<Rightarrow> session_state \<Rightarrow> string \<Rightarrow> string
     \<Rightarrow> session_state \<times> message" where
  "login chk db ss un password =
     (case get_user_by_username db un of
        None \<Rightarrow> (ss, Error ''Login failed. Check username and password.'')
      | Some user \<Rightarrow>
          if check_password chk user password
            then (login_user_in_session ss user,
                  Success (''Welcome back, '' @ username user @ ''!''))
          else (ss, Error ''Login failed. Check username and password.''))"

section \<open>Upload Result\<close>

text \<open>
  The upload form (lines 351 to 360). \<open>uf_patient_id\<close> is the key that the selected label
  stands for, so it is the key of a row of the patient list that the form was built
  from; the dates are day numbers.
\<close>

record upload_form =
  uf_patient_id :: nat
  uf_test_type :: string
  uf_test_date :: int
  uf_result_date :: int
  uf_notes :: string
  uf_uploaded_file :: "uploaded_file option"

text \<open>\<^verbatim>\<open>datetime.combine(d, datetime.min.time())\<close>: midnight of day \<open>d\<close>, in seconds.\<close>

definition combine_midnight :: "int \<Rightarrow> int" where
  "combine_midnight d = d * 86400"

text \<open>Python's truth value of a nullable string: set and not empty.\<close>

definition truthy :: "string option \<Rightarrow> bool" where
  "truthy s = (case s of None \<Rightarrow> False | Some x \<Rightarrow> x \<noteq> [])"

text \<open>
  Line 387: the recipient of the notification, from \<^verbatim>\<open>patient.user\<close>, the user row that
  the patient's \<open>user_id\<close> names. Without that row the conditional falls to
  \<^verbatim>\<open>patient.user.email\<close>, which raises.
\<close>

definition choose_recipient :: "User option \<Rightarrow> exn + string" where
  "choose_recipient patient_user =
     (case patient_user of
        None \<Rightarrow> Inl (none_has_no_attribute ''email'')
      | Some u \<Rightarrow> if truthy (phone u) then Inr (the (phone u)) else Inr (email u))"

text \<open>
  The handler of lines 343 to 400. \<open>ts\<close> and \<open>salt\<close> are passed on to \<open>unique_filename\<close>,
  \<open>now\<close> is the clock read for \<open>sent_at\<close>. The result is the committed database, the
  upload folder and the message. With no patient the select box has no option and the
  lookup of line 354 raises before the form is read. The lab result is committed on its
  own (line 381) before the notification is built, so an exception after that point finds
  nothing left to roll back.
\<close>

definition upload_result ::
  "string \<Rightarrow> string \<Rightarrow> int \<Rightarrow> session_state \<Rightarrow> database \<Rightarrow> file_store \<Rightarrow> upload_form
     \<Rightarrow> database \<times> file_store \<times> message" where
  "upload_result ts salt now ss db fs form =
     (if \<not> logged_in ss \<or> ss_user_type ss \<noteq> Some ''lab_tech''
        then (db, fs, Warning ''Access denied. Only logged-in lab technicians can upload results.'')
      else if patients db = [] then (db, fs, Uncaught (KeyError ''None''))
      else if uf_test_type form = [] then (db, fs, Error ''Test type is required.'')
      else if uf_uploaded_file form = None
        then (db, fs, Error ''Please select a result file to upload.'')
      else
        case save_uploaded_file ts salt fs (uf_uploaded_file form) of
          Inl e \<Rightarrow> (db, fs, Error (''Upload failed: '' @ str e))
        | Inr (saved_name, fs') \<Rightarrow>
            let (lab_result, db1) = insert_lab_result db
                  \<lparr>r_id = 0, patient_id = uf_patient_id form,
                   test_type = uf_test_type form,
                   test_date = combine_midnight (uf_test_date form),
                   result_date = combine_midnight (uf_result_date form),
                   r_status = Some ''completed'', file_path = Some saved_name,
                   r_notes = Some (uf_notes form), lab_technician = ss_username ss\<rparr>
            in case get_patient db1 (uf_patient_id form) of
                 None \<Rightarrow>
                   (db1, fs', Error (''Upload failed: '' @
                      str (none_has_no_attribute ''user'')))
               | Some patient \<Rightarrow>
                   (case choose_recipient (get_user db1 (p_user_id patient)) of
                      Inl e \<Rightarrow> (db1, fs', Error (''Upload failed: '' @ str e))
                    | Inr rcpt \<Rightarrow>
                        let (notification, db2) = insert_notification db1
                              \<lparr>n_id = 0, lab_result_id = r_id lab_result,
                               notification_type = ''portal'', sent_at = Some now,
                               n_status = Some ''sent'', recipient = rcpt\<rparr>
                        in (db2, fs', Success ''Lab result uploaded successfully.'')))"

section \<open>Dashboard\<close>

text \<open>
  What the dashboard lists (lines 403 to 523): for a patient the profile and its results,
  for a doctor all results, for a lab technician the pending and the completed results.
  The doctor's and the technician's pages print the patient of every result and raise
  when that row is missing.
\<close>

datatype view =
    PatientProfileNotFound
  | PatientResults Patient "LabResult list"
  | DoctorResults "LabResult list"
  | LabTechResults "LabResult list" "LabResult list"
  | NoResults

definition has_patient :: "database \<Rightarrow> LabResult \<Rightarrow> bool" where
  "has_patient db res = (get_patient db (patient_id res) \<noteq> None)"

definition dashboard :: "session_state \<Rightarrow> database \<Rightarrow> message + view" where
  "dashboard ss db =
     (if \<not> logged_in ss then Inl (Warning ''Please login to access your dashboard.'')
      else case current_user db ss of
        None \<Rightarrow> Inl (Uncaught (none_has_no_attribute ''user_type''))
      | Some user \<Rightarrow>
          if user_type user = ''patient'' then
            (case find (\<lambda>p. p_user_id p = u_id user) (patients db) of
               None \<Rightarrow> Inr PatientProfileNotFound
             | Some patient \<Rightarrow>
                 Inr (PatientResults patient
                   (order_by_test_date_desc
                      (filter (\<lambda>r. patient_id r = p_id patient) (lab_results db)))))
          else if user_type user = ''doctor'' then
            (let results = order_by_test_date_desc (lab_results db)
             in if list_all (has_patient db) results then Inr (DoctorResults results)
                else Inl (Uncaught (none_has_no_attribute ''first_name'')))
          else if user_type user = ''lab_tech'' then
            (let pending = filter (\<lambda>r. r_status r = Some ''pending'') (lab_results db);
                 completed = order_by_test_date_desc
                   (filter (\<lambda>r. r_status r = Some ''completed'') (lab_results db))
             in if list_all (has_patient db) pending \<and> list_all (has_patient db) completed
                  then Inr (LabTechResults pending completed)
                else Inl (Uncaught (none_has_no_attribute ''first_name'')))
          else Inr NoResults)"

section \<open>Fixtures\<close>

text \<open>
  A small portal for the concrete instances below: patient \<open>p1\<close>, who gave no phone,
  lab technician \<open>t1\<close>, and the upload form of a blood count for \<open>p1\<close>.
\<close>

definition t1_session :: session_state where
  "t1_session = \<lparr>ss_user_id = Some 2, ss_username = Some ''t1'', ss_user_type = Some ''lab_tech''\<rparr>"

definition p1_user :: User where
  "p1_user = \<lparr>u_id = 1, username = ''p1'', email = ''p1@example.org'', password_hash = Some ''hash-x'',
     user_type = ''patient'', phone = Some [], created_at = Some 1700000000\<rparr>"

definition t1_user :: User where
  "t1_user = \<lparr>u_id = 2, username = ''t1'', email = ''t1@example.org'', password_hash = Some ''hash-y'',
     user_type = ''lab_tech'', phone = Some [], created_at = Some 1700000000\<rparr>"

definition p1_patient :: Patient where
  "p1_patient = \<lparr>p_id = 1, p_user_id = 1, p_first_name = ''Pat'', p_last_name = ''One'',
     date_of_birth = 18000, gender = ''other'', address = Some [], emergency_contact = Some []\<rparr>"

definition portal_db :: database where
  "portal_db = \<lparr>users = [p1_user, t1_user], patients = [p1_patient], doctors = [],
     lab_results = [], notifications = []\<rparr>"

definition cbc_form :: "uploaded_file option \<Rightarrow> upload_form" where
  "cbc_form file = \<lparr>uf_patient_id = 1, uf_test_type = ''CBC'', uf_test_date = 19000,
     uf_result_date = 19001, uf_notes = [], uf_uploaded_file = file\<rparr>"

text \<open>
  A second patient with one result each, and the sessions of the second patient and of a
  visitor who has not logged in.
\<close>

definition p2_user :: User where
  "p2_user = \<lparr>u_id = 3, username = ''p2'', email = ''p2@example.org'', password_hash = Some ''hash-z'',
     user_type = ''patient'', phone = Some ''0700000002'', created_at = Some 1700000000\<rparr>"

definition p2_patient :: Patient where
  "p2_patient = \<lparr>p_id = 2, p_user_id = 3, p_first_name = ''Quinn'', p_last_name = ''Two'',
     date_of_birth = 18500, gender = ''other'', address = Some [], emergency_contact = Some []\<rparr>"

definition p1_result :: LabResult where
  "p1_result = \<lparr>r_id = 1, patient_id = 1, test_type = ''CBC'', test_date = 1641600000,
     result_date = 1641686400, r_status = Some ''completed'', file_path = None,
     r_notes = Some [], lab_technician = Some ''t1''\<rparr>"

definition p2_result :: LabResult where
  "p2_result = \<lparr>r_id = 2, patient_id = 2, test_type = ''MRI'', test_date = 1641600000,
     result_date = 1641686400, r_status = Some ''completed'', file_path = None,
     r_notes = Some [], lab_technician = Some ''t1''\<rparr>"

definition two_patients_db :: database where
  "two_patients_db = \<lparr>users = [p1_user, t1_user, p2_user], patients = [p1_patient, p2_patient],
     doctors = [], lab_results = [p1_result, p2_result], notifications = []\<rparr>"

definition p2_session :: session_state where
  "p2_session = \<lparr>ss_user_id = Some 3, ss_username = Some ''p2'', ss_user_type = Some ''patient''\<rparr>"

definition anonymous_session :: session_state where
  "anonymous_session = \<lparr>ss_user_id = None, ss_username = None, ss_user_type = None\<rparr>"

text \<open>
  The report that \<open>t1\<close> uploads, and the two rows that a successful upload adds: for
  \<open>p1\<close> in the small portal, and for \<open>p2\<close>, who gave a phone, in the portal of two
  patients.
\<close>

definition report_pdf :: uploaded_file where
  "report_pdf = \<lparr>name = ''report.pdf'', data = replicate 120 0\<rparr>"

definition cbc_result :: LabResult where
  "cbc_result = \<lparr>r_id = 1, patient_id = 1, test_type = ''CBC'', test_date = 1641600000,
     result_date = 1641686400, r_status = Some ''completed'',
     file_path = Some ''20240101120000_a1b2c3d4e5f6_report.pdf'',
     r_notes = Some [], lab_technician = Some ''t1''\<rparr>"

definition cbc_notification :: Notification where
  "cbc_notification = \<lparr>n_id = 1, lab_result_id = 1, notification_type = ''portal'',
     sent_at = Some 1704110400, n_status = Some ''sent'', recipient = ''p1@example.org''\<rparr>"

text \<open>
  A portal with one doctor, and registration forms whose profile fields are parameters.
\<close>

definition dr_house :: Doctor where
  "dr_house = \<lparr>d_id = 1, d_user_id = 4, d_first_name = ''Greg'', d_last_name = ''House'',
     specialization = ''Nephrology'', license_number = ''LIC-001'', hospital = Some []\<rparr>"

definition d1_user :: User where
  "d1_user = \<lparr>u_id = 4, username = ''d1'', email = ''d1@example.org'', password_hash = Some ''hash-w'',
     user_type = ''doctor'', phone = Some [], created_at = Some 1700000000\<rparr>"

definition clinic_db :: database where
  "clinic_db = \<lparr>users = [p1_user, t1_user, d1_user], patients = [p1_patient],
     doctors = [dr_house], lab_results = [], notifications = []\<rparr>"

definition doctor_form :: "string \<Rightarrow> string \<Rightarrow> string \<Rightarrow> register_form" where
  "doctor_form un first lic = \<lparr>role = ''doctor'', f_username = un,
     f_email = un @ ''@example.org'', f_password = ''secret'', f_phone = [],
     f_first_name = first, f_last_name = first, f_dob = 19000, f_gender = ''male'', f_address = [],
     f_emergency_contact = [], f_specialization = [], f_license_number = lic,
     f_hospital = []\<rparr>"

definition patient_form :: "string \<Rightarrow> string \<Rightarrow> register_form" where
  "patient_form un first = \<lparr>role = ''patient'', f_username = un,
     f_email = un @ ''@example.org'', f_password = ''secret'', f_phone = [],
     f_first_name = first, f_last_name = first, f_dob = 19000, f_gender = ''male'', f_address = [],
     f_emergency_contact = [], f_specialization = [], f_license_number = [],
     f_hospital = []\<rparr>"

definition mri_form :: "uploaded_file option \<Rightarrow> upload_form" where
  "mri_form file = \<lparr>uf_patient_id = 2, uf_test_type = ''MRI'', uf_test_date = 19000,
     uf_result_date = 19001, uf_notes = ''with contrast'', uf_uploaded_file = file\<rparr>"

definition mri_result :: LabResult where
  "mri_result = \<lparr>r_id = 3, patient_id = 2, test_type = ''MRI'', test_date = 1641600000,
     result_date = 1641686400, r_status = Some ''completed'',
     file_path = Some ''20240101120000_a1b2c3d4e5f6_report.pdf'',
     r_notes = Some ''with contrast'', lab_technician = Some ''t1''\<rparr>"

definition mri_notification :: Notification where
  "mri_notification = \<lparr>n_id = 1, lab_result_id = 3, notification_type = ''portal'',
     sent_at = Some 1704110400, n_status = Some ''sent'', recipient = ''0700000002''\<rparr>"

section \<open>Auxiliary facts\<close>

lemma rsplit1_last_append:
  "sep \<notin> set ext \<Longrightarrow> rsplit1_last sep (base @ sep # ext) = ext"
proof -
  assume h: "sep \<notin> set ext"
  have "takeWhile (\<lambda>c. c \<noteq> sep) (rev ext @ sep # rev base) = rev ext @ takeWhile (\<lambda>c. c \<noteq> sep) (sep # rev base)"
    by (rule takeWhile_append2) (use h in auto)
  then show ?thesis by (simp add: rsplit1_last_def)
qed

lemma upload_result_save_fails:
  assumes "save_uploaded_file ts salt fs (uf_uploaded_file form) = Inl e"
  shows "\<exists>m. upload_result ts salt now ss db fs form = (db, fs, m) \<and> (\<forall>s. m \<noteq> Success s)"
  using assms by (simp add: upload_result_def)

lemma upload_result_save_fails_message:
  assumes "logged_in ss" "ss_user_type ss = Some ''lab_tech''" "patients db \<noteq> []"
    "uf_test_type form \<noteq> []" "uf_uploaded_file form \<noteq> None"
    "save_uploaded_file ts salt fs (uf_uploaded_file form) = Inl e"
  shows "upload_result ts salt now ss db fs form = (db, fs, Error (''Upload failed: '' @ str e))"
  using assms by (simp add: upload_result_def)

lemma save_not_allowed:
  "\<not> allowed_file (name f) \<Longrightarrow>
     save_uploaded_file ts salt fs (Some f) = Inl (ValueError ''File type not allowed.'')"
  by (simp add: save_uploaded_file_def)

lemma allowed_file_report_pdf: "allowed_file ''report.pdf''"
  by (simp add: allowed_file_def lower_def lower_char_def rsplit1_last_def ALLOWED_EXTENSIONS_def)

lemma allowed_file_split:
  assumes "name f = base @ ''.'' @ ext" "CHR ''.'' \<notin> set ext"
  shows "allowed_file (name f) = (lower ext \<in> ALLOWED_EXTENSIONS)"
  using assms rsplit1_last_append [of "CHR ''.''" ext base]
  by (simp add: allowed_file_def)

lemma replace_removes: "a \<noteq> b \<Longrightarrow> a \<notin> set (replace a b s)"
  by (induction s) (simp_all add: replace_def)

lemma replace_keeps_out: "c \<notin> set s \<Longrightarrow> c \<noteq> b \<Longrightarrow> c \<notin> set (replace a b s)"
  by (induction s) (simp_all add: replace_def)

lemma secure_filename_chars:
  "CHR ''/'' \<notin> set (secure_filename f) \<and> CHR 0x5C \<notin> set (secure_filename f) \<and>
   CHR '' '' \<notin> set (secure_filename f)"
proof -
  let ?a = "replace CHR ''/'' CHR ''_'' f"
  let ?b = "replace (CHR 0x5C) CHR ''_'' ?a"
  have a: "CHR ''/'' \<notin> set ?a" by (rule replace_removes) simp
  have b1: "CHR ''/'' \<notin> set ?b" by (rule replace_keeps_out [OF a]) simp
  have b2: "CHR 0x5C \<notin> set ?b" by (rule replace_removes) simp
  have c1: "CHR ''/'' \<notin> set (replace CHR '' '' CHR ''_'' ?b)"
    by (rule replace_keeps_out [OF b1]) simp
  have c2: "CHR 0x5C \<notin> set (replace CHR '' '' CHR ''_'' ?b)"
    by (rule replace_keeps_out [OF b2]) simp
  have c3: "CHR '' '' \<notin> set (replace CHR '' '' CHR ''_'' ?b)"
    by (rule replace_removes) simp
  from c1 c2 c3 show ?thesis unfolding secure_filename_def by (intro conjI)
qed

lemma timestamp_safe:
  assumes "is_timestamp ts"
  shows "CHR ''/'' \<notin> set ts \<and> CHR 0x5C \<notin> set ts \<and> CHR '' '' \<notin> set ts"
proof -
  have sub: "set ts \<subseteq> set ''0123456789''"
    using assms by (auto simp only: is_timestamp_def list_all_iff)
  have "CHR ''/'' \<notin> set ''0123456789''" "CHR 0x5C \<notin> set ''0123456789''"
    "CHR '' '' \<notin> set ''0123456789''" by simp_all
  with sub show ?thesis by blast
qed

lemma token_safe:
  assumes "is_token_hex6 s"
  shows "CHR ''/'' \<notin> set s \<and> CHR 0x5C \<notin> set s \<and> CHR '' '' \<notin> set s"
proof -
  have sub: "set s \<subseteq> set ''0123456789abcdef''"
    using assms by (auto simp only: is_token_hex6_def list_all_iff)
  have "CHR ''/'' \<notin> set ''0123456789abcdef''" "CHR 0x5C \<notin> set ''0123456789abcdef''"
    "CHR '' '' \<notin> set ''0123456789abcdef''" by simp_all
  with sub show ?thesis by blast
qed

lemma ex_ts: "is_timestamp ''20240101120000''" by (simp add: is_timestamp_def)
lemma ex_salt: "is_token_hex6 ''a1b2c3d4e5f6''" by (simp add: is_token_hex6_def)
lemma ex_salt2: "is_token_hex6 ''0f9e8d7c6b5a''" by (simp add: is_token_hex6_def)

lemma find_SomeD: "find P xs = Some x \<Longrightarrow> P x \<and> x \<in> set xs"
  by (auto simp: find_Some_iff)

lemma current_user_SomeD:
  assumes "current_user db ss = Some user"
  shows "logged_in ss \<and> ss_user_id ss = Some (u_id user) \<and> user \<in> set (users db)"
proof -
  from assms have li: "logged_in ss"
    by (simp add: current_user_def split: if_splits)
  from assms li obtain uid where uid: "ss_user_id ss = Some uid" "get_user db uid = Some user"
    by (simp add: current_user_def split: option.splits)
  from uid(2) have "u_id user = uid \<and> user \<in> set (users db)"
    unfolding get_user_def by (rule find_SomeD)
  with li uid(1) show ?thesis by simp
qed

lemma dashboard_patient:
  assumes "current_user db ss = Some user" and "user_type user = ''patient''"
  shows "dashboard ss db =
    (case find (\<lambda>p. p_user_id p = u_id user) (patients db) of
       None \<Rightarrow> Inr PatientProfileNotFound
     | Some patient \<Rightarrow>
         Inr (PatientResults patient
           (order_by_test_date_desc
              (filter (\<lambda>r. patient_id r = p_id patient) (lab_results db)))))"
proof -
  have li: "logged_in ss" using current_user_SomeD [OF assms(1)] by simp
  show ?thesis unfolding dashboard_def using li assms by simp
qed

lemma patient_key_unique:
  assumes "distinct (map p_id ps)" "q \<in> set ps" "p \<in> set ps" "p_id q = p_id p"
  shows "q = p"
  using assms by (simp add: distinct_map inj_on_def)

lemma save_report_pdf:
  "save_uploaded_file ''20240101120000'' ''a1b2c3d4e5f6'' Map.empty (Some report_pdf) =
     Inr (''20240101120000_a1b2c3d4e5f6_report.pdf'',
          [''20240101120000_a1b2c3d4e5f6_report.pdf'' \<mapsto> replicate 120 0])"
  by (simp add: save_uploaded_file_def allowed_file_report_pdf report_pdf_def
      MAX_CONTENT_LENGTH_def unique_filename_def secure_filename_def replace_def Let_def
      write_blob_def NAME_MAX_def)

lemma upload_result_after_save:
  assumes "logged_in ss" and "ss_user_type ss = Some ''lab_tech''" and "patients db \<noteq> []"
    and "uf_test_type form \<noteq> []"
    and "save_uploaded_file ts salt fs (uf_uploaded_file form) = Inr (saved_name, fs')"
  shows "upload_result ts salt now ss db fs form =
    (let (lab_result, db1) = insert_lab_result db
           \<lparr>r_id = 0, patient_id = uf_patient_id form,
            test_type = uf_test_type form,
            test_date = combine_midnight (uf_test_date form),
            result_date = combine_midnight (uf_result_date form),
            r_status = Some ''completed'', file_path = Some saved_name,
            r_notes = Some (uf_notes form), lab_technician = ss_username ss\<rparr>
     in case get_patient db1 (uf_patient_id form) of
          None \<Rightarrow>
            (db1, fs', Error (''Upload failed: '' @ str (none_has_no_attribute ''user'')))
        | Some patient \<Rightarrow>
            (case choose_recipient (get_user db1 (p_user_id patient)) of
               Inl e \<Rightarrow> (db1, fs', Error (''Upload failed: '' @ str e))
             | Inr rcpt \<Rightarrow>
                 let (notification, db2) = insert_notification db1
                       \<lparr>n_id = 0, lab_result_id = r_id lab_result,
                        notification_type = ''portal'', sent_at = Some now,
                        n_status = Some ''sent'', recipient = rcpt\<rparr>
                 in (db2, fs', Success ''Lab result uploaded successfully.'')))"
proof -
  from assms(5) obtain f where "uf_uploaded_file form = Some f"
    by (cases "uf_uploaded_file form") (simp_all add: save_uploaded_file_def)
  with assms show ?thesis
    by (simp add: upload_result_def)
qed

lemma upload_result_success_checks:
  assumes "upload_result ts salt now ss db fs form = (db', fs', Success s)"
  shows "logged_in ss \<and> ss_user_type ss = Some ''lab_tech'' \<and> patients db \<noteq> [] \<and>
    uf_test_type form \<noteq> []"
proof -
  have a: "logged_in ss \<and> ss_user_type ss = Some ''lab_tech''"
  proof (rule ccontr)
    assume "\<not> (logged_in ss \<and> ss_user_type ss = Some ''lab_tech'')"
    then have "snd (snd (upload_result ts salt now ss db fs form)) =
        Warning ''Access denied. Only logged-in lab technicians can upload results.''"
      by (auto simp: upload_result_def)
    with assms show False by simp
  qed
  have b: "patients db \<noteq> []"
  proof
    assume "patients db = []"
    with a have "snd (snd (upload_result ts salt now ss db fs form)) = Uncaught (KeyError ''None'')"
      by (simp add: upload_result_def)
    with assms show False by simp
  qed
  have c: "uf_test_type form \<noteq> []"
  proof
    assume "uf_test_type form = []"
    with a b have "snd (snd (upload_result ts salt now ss db fs form)) =
        Error ''Test type is required.''"
      by (simp add: upload_result_def)
    with assms show False by simp
  qed
  from a b c show ?thesis by simp
qed

lemma upload_result_patient_missing:
  assumes "logged_in ss" and "ss_user_type ss = Some ''lab_tech''" and "patients db \<noteq> []"
    and "uf_test_type form \<noteq> []"
    and "save_uploaded_file ts salt fs (uf_uploaded_file form) = Inr (saved_name, fs')"
    and "get_patient db (uf_patient_id form) = None"
  shows "upload_result ts salt now ss db fs form =
    (db\<lparr>lab_results := lab_results db @
        [\<lparr>r_id = next_id (map r_id (lab_results db)), patient_id = uf_patient_id form,
          test_type = uf_test_type form,
          test_date = combine_midnight (uf_test_date form),
          result_date = combine_midnight (uf_result_date form),
          r_status = Some ''completed'', file_path = Some saved_name,
          r_notes = Some (uf_notes form), lab_technician = ss_username ss\<rparr>]\<rparr>,
     fs', Error (''Upload failed: '' @ str (none_has_no_attribute ''user'')))"
  using assms(6)
  by (simp add: upload_result_after_save [OF assms(1-5)]
      insert_lab_result_def Let_def get_patient_def)

lemma upload_result_user_missing:
  assumes "logged_in ss" and "ss_user_type ss = Some ''lab_tech''" and "patients db \<noteq> []"
    and "uf_test_type form \<noteq> []"
    and "save_uploaded_file ts salt fs (uf_uploaded_file form) = Inr (saved_name, fs')"
    and "get_patient db (uf_patient_id form) = Some p"
    and "get_user db (p_user_id p) = None"
  shows "upload_result ts salt now ss db fs form =
    (db\<lparr>lab_results := lab_results db @
        [\<lparr>r_id = next_id (map r_id (lab_results db)), patient_id = uf_patient_id form,
          test_type = uf_test_type form,
          test_date = combine_midnight (uf_test_date form),
          result_date = combine_midnight (uf_result_date form),
          r_status = Some ''completed'', file_path = Some saved_name,
          r_notes = Some (uf_notes form), lab_technician = ss_username ss\<rparr>]\<rparr>,
     fs', Error (''Upload failed: '' @ str (none_has_no_attribute ''email'')))"
  using assms(6,7)
  by (simp add: upload_result_after_save [OF assms(1-5)]
      insert_lab_result_def Let_def get_patient_def get_user_def choose_recipient_def)

lemma upload_result_succeeds:
  assumes "logged_in ss" and "ss_user_type ss = Some ''lab_tech''" and "patients db \<noteq> []"
    and "uf_test_type form \<noteq> []"
    and "save_uploaded_file ts salt fs (uf_uploaded_file form) = Inr (saved_name, fs')"
    and "get_patient db (uf_patient_id form) = Some p"
    and "get_user db (p_user_id p) = Some u"
  shows "upload_result ts salt now ss db fs form =
    (db\<lparr>lab_results := lab_results db @
        [\<lparr>r_id = next_id (map r_id (lab_results db)), patient_id = uf_patient_id form,
          test_type = uf_test_type form,
          test_date = combine_midnight (uf_test_date form),
          result_date = combine_midnight (uf_result_date form),
          r_status = Some ''completed'', file_path = Some saved_name,
          r_notes = Some (uf_notes form), lab_technician = ss_username ss\<rparr>],
        notifications := notifications db @
        [\<lparr>n_id = next_id (map n_id (notifications db)),
          lab_result_id = next_id (map r_id (lab_results db)),
          notification_type = ''portal'', sent_at = Some now, n_status = Some ''sent'',
          recipient = (case phone u of
                         None \<Rightarrow> email u
                       | Some ph \<Rightarrow> if ph \<noteq> [] then ph else email u)\<rparr>]\<rparr>,
     fs', Success ''Lab result uploaded successfully.'')"
proof -
  have cr: "choose_recipient (Some u) =
      Inr (case phone u of None \<Rightarrow> email u | Some ph \<Rightarrow> if ph \<noteq> [] then ph else email u)"
    by (simp add: choose_recipient_def truthy_def split: option.splits)
  show ?thesis
    using assms(6,7)
    by (simp add: upload_result_after_save [OF assms(1-5)] cr
        insert_lab_result_def insert_notification_def Let_def get_patient_def get_user_def)
qed

lemma user_key_unique:
  assumes "distinct (map u_id us)" "v \<in> set us" "u \<in> set us" "u_id v = u_id u"
  shows "v = u"
  using assms by (simp add: distinct_map inj_on_def)

lemma get_patient_SomeD:
  "get_patient db pid = Some p \<Longrightarrow> p \<in> set (patients db) \<and> p_id p = pid"
  unfolding get_patient_def by (drule find_SomeD) simp

lemma get_user_SomeD:
  "get_user db uid = Some u \<Longrightarrow> u \<in> set (users db) \<and> u_id u = uid"
  unfolding get_user_def by (drule find_SomeD) simp


lemma upload_cbc_report:
  "upload_result ''20240101120000'' ''a1b2c3d4e5f6'' 1704110400 t1_session portal_db Map.empty
      (cbc_form (Some report_pdf)) =
    (portal_db\<lparr>lab_results := [cbc_result], notifications := [cbc_notification]\<rparr>,
     [''20240101120000_a1b2c3d4e5f6_report.pdf'' \<mapsto> replicate 120 0],
     Success ''Lab result uploaded successfully.'')"
proof -
  have a: "logged_in t1_session" "ss_user_type t1_session = Some ''lab_tech''"
    by (simp_all add: logged_in_def t1_session_def)
  have b: "patients portal_db \<noteq> []" "uf_test_type (cbc_form (Some report_pdf)) \<noteq> []"
    by (simp_all add: cbc_form_def portal_db_def)
  have c: "save_uploaded_file ''20240101120000'' ''a1b2c3d4e5f6'' Map.empty
      (uf_uploaded_file (cbc_form (Some report_pdf))) =
     Inr (''20240101120000_a1b2c3d4e5f6_report.pdf'',
          [''20240101120000_a1b2c3d4e5f6_report.pdf'' \<mapsto> replicate 120 0])"
    by (simp add: cbc_form_def save_report_pdf)
  note upload_result_after_save [OF a b c, of 1704110400]
  also have "(let (lab_result, db1) = insert_lab_result portal_db
           \<lparr>r_id = 0, patient_id = uf_patient_id (cbc_form (Some report_pdf)),
            test_type = uf_test_type (cbc_form (Some report_pdf)),
            test_date = combine_midnight (uf_test_date (cbc_form (Some report_pdf))),
            result_date = combine_midnight (uf_result_date (cbc_form (Some report_pdf))),
            r_status = Some ''completed'',
            file_path = Some ''20240101120000_a1b2c3d4e5f6_report.pdf'',
            r_notes = Some (uf_notes (cbc_form (Some report_pdf))),
            lab_technician = ss_username t1_session\<rparr>
     in case get_patient db1 (uf_patient_id (cbc_form (Some report_pdf))) of
          None \<Rightarrow>
            (db1, [''20240101120000_a1b2c3d4e5f6_report.pdf'' \<mapsto> replicate 120 (0 :: byte)],
             Error (''Upload failed: '' @ str (none_has_no_attribute ''user'')))
        | Some patient \<Rightarrow>
            (case choose_recipient (get_user db1 (p_user_id patient)) of
               Inl e \<Rightarrow> (db1, [''20240101120000_a1b2c3d4e5f6_report.pdf'' \<mapsto> replicate 120 0],
                  Error (''Upload failed: '' @ str e))
             | Inr rcpt \<Rightarrow>
                 let (notification, db2) = insert_notification db1
                       \<lparr>n_id = 0, lab_result_id = r_id lab_result,
                        notification_type = ''portal'', sent_at = Some 1704110400,
                        n_status = Some ''sent'', recipient = rcpt\<rparr>
                 in (db2, [''20240101120000_a1b2c3d4e5f6_report.pdf'' \<mapsto> replicate 120 0],
                     Success ''Lab result uploaded successfully.''))) =
    (portal_db\<lparr>lab_results := [cbc_result], notifications := [cbc_notification]\<rparr>,
     [''20240101120000_a1b2c3d4e5f6_report.pdf'' \<mapsto> replicate 120 0],
     Success ''Lab result uploaded successfully.'')"
    by (simp add: insert_lab_result_def insert_notification_def get_patient_def get_user_def
        choose_recipient_def truthy_def next_id_def combine_midnight_def Let_def
        portal_db_def cbc_form_def t1_session_def p1_patient_def p1_user_def t1_user_def
        cbc_result_def cbc_notification_def)
  finally show ?thesis .
qed

lemma upload_mri_report:
  "upload_result ''20240101120000'' ''a1b2c3d4e5f6'' 1704110400 t1_session two_patients_db
      Map.empty (mri_form (Some report_pdf)) =
    (two_patients_db\<lparr>lab_results := [p1_result, p2_result, mri_result],
       notifications := [mri_notification]\<rparr>,
     [''20240101120000_a1b2c3d4e5f6_report.pdf'' \<mapsto> replicate 120 0],
     Success ''Lab result uploaded successfully.'')"
proof -
  have a: "logged_in t1_session" "ss_user_type t1_session = Some ''lab_tech''"
    by (simp_all add: logged_in_def t1_session_def)
  have b: "patients two_patients_db \<noteq> []" "uf_test_type (mri_form (Some report_pdf)) \<noteq> []"
    by (simp_all add: mri_form_def two_patients_db_def)
  have c: "save_uploaded_file ''20240101120000'' ''a1b2c3d4e5f6'' Map.empty
      (uf_uploaded_file (mri_form (Some report_pdf))) =
     Inr (''20240101120000_a1b2c3d4e5f6_report.pdf'',
          [''20240101120000_a1b2c3d4e5f6_report.pdf'' \<mapsto> replicate 120 0])"
    by (simp add: mri_form_def save_report_pdf)
  have d: "get_patient two_patients_db (uf_patient_id (mri_form (Some report_pdf))) =
      Some p2_patient"
    by (simp add: get_patient_def two_patients_db_def mri_form_def p1_patient_def p2_patient_def)
  have e: "get_user two_patients_db (p_user_id p2_patient) = Some p2_user"
    by (simp add: get_user_def two_patients_db_def p2_patient_def p1_user_def t1_user_def
        p2_user_def)
  note upload_result_succeeds [OF a b c d e, of 1704110400]
  also have "(two_patients_db\<lparr>lab_results := lab_results two_patients_db @
        [\<lparr>r_id = next_id (map r_id (lab_results two_patients_db)),
          patient_id = uf_patient_id (mri_form (Some report_pdf)),
          test_type = uf_test_type (mri_form (Some report_pdf)),
          test_date = combine_midnight (uf_test_date (mri_form (Some report_pdf))),
          result_date = combine_midnight (uf_result_date (mri_form (Some report_pdf))),
          r_status = Some ''completed'',
          file_path = Some ''20240101120000_a1b2c3d4e5f6_report.pdf'',
          r_notes = Some (uf_notes (mri_form (Some report_pdf))),
          lab_technician = ss_username t1_session\<rparr>],
        notifications := notifications two_patients_db @
        [\<lparr>n_id = next_id (map n_id (notifications two_patients_db)),
          lab_result_id = next_id (map r_id (lab_results two_patients_db)),
          notification_type = ''portal'', sent_at = Some 1704110400, n_status = Some ''sent'',
          recipient = (case phone p2_user of
                         None \<Rightarrow> email p2_user
                       | Some ph \<Rightarrow> if ph \<noteq> [] then ph else email p2_user)\<rparr>]\<rparr>,
     [''20240101120000_a1b2c3d4e5f6_report.pdf'' \<mapsto> replicate 120 (0 :: byte)],
     Success ''Lab result uploaded successfully.'') =
    (two_patients_db\<lparr>lab_results := [p1_result, p2_result, mri_result],
       notifications := [mri_notification]\<rparr>,
     [''20240101120000_a1b2c3d4e5f6_report.pdf'' \<mapsto> replicate 120 0],
     Success ''Lab result uploaded successfully.'')"
    by (simp add: two_patients_db_def mri_form_def t1_session_def next_id_def
        combine_midnight_def p1_result_def p2_result_def p2_user_def mri_result_def
        mri_notification_def)
  finally show ?thesis .
qed

lemma get_doctor_by_license_member:
  assumes "d \<in> set (doctors db)" and "license_number d = lic"
  shows "get_doctor_by_license db lic \<noteq> None"
  using assms by (auto simp: get_doctor_by_license_def find_None_iff)

lemma empty_database_patients_have_users:
  "\<forall>p \<in> set (patients \<lparr>users = [], patients = [], doctors = [], lab_results = [],
      notifications = []\<rparr>).
     get_user \<lparr>users = [], patients = [], doctors = [], lab_results = [],
      notifications = []\<rparr> (p_user_id p) \<noteq> None"
  by simp

lemma get_user_found: "get_user db uid \<noteq> None \<longleftrightarrow> (\<exists>u \<in> set (users db). u_id u = uid)"
  by (auto simp: get_user_def find_None_iff)

lemma register_keeps_patients_have_users:
  assumes "\<forall>p \<in> set (patients db). get_user db (p_user_id p) \<noteq> None"
  shows "\<forall>p \<in> set (patients (fst (register gen now db form))).
     get_user (fst (register gen now db form)) (p_user_id p) \<noteq> None"
proof -
  from assms have a: "\<forall>p \<in> set (patients db). \<exists>u \<in> set (users db). u_id u = p_user_id p"
    unfolding get_user_found .
  have "\<forall>p \<in> set (patients (fst (register gen now db form))).
      \<exists>u \<in> set (users (fst (register gen now db form))). u_id u = p_user_id p"
    using a
    by (auto simp: register_def Let_def insert_user_def insert_patient_def insert_doctor_def
        split: if_splits)
  then show ?thesis unfolding get_user_found .
qed

lemma upload_result_keeps_users_and_patients:
  "users (fst (upload_result ts salt now ss db fs form)) = users db \<and>
   patients (fst (upload_result ts salt now ss db fs form)) = patients db"
  by (simp add: upload_result_def Let_def insert_lab_result_def insert_notification_def
      split: sum.splits option.splits prod.splits)

lemma upload_result_keeps_patients_have_users:
  assumes "\<forall>p \<in> set (patients db). get_user db (p_user_id p) \<noteq> None"
  shows "\<forall>p \<in> set (patients (fst (upload_result ts salt now ss db fs form))).
     get_user (fst (upload_result ts salt now ss db fs form)) (p_user_id p) \<noteq> None"
proof -
  note k = upload_result_keeps_users_and_patients [of ts salt now ss db fs form]
  have "get_user (fst (upload_result ts salt now ss db fs form)) uid = get_user db uid" for uid
    using k by (simp add: get_user_def)
  with assms k show ?thesis by simp
qed

section \<open>The claims\<close>

subsection \<open>C1: the results a patient sees\<close>

text \<open>
  Claim C1. For every database and every session whose user has the role patient, the
  dashboard either finds no profile or lists the results of the first patient profile
  whose \<open>user_id\<close> is the user's key: every listed row is a row of the table and its
  \<open>patient_id\<close> is the key of that profile. With the primary key of the patient table
  unique, every profile that a listed row refers to belongs to this user, so no row of
  another patient is listed.
\<close>

theorem patient_dashboard_own_results:
  assumes "current_user db ss = Some user" and "user_type user = ''patient''"
  shows "dashboard ss db = Inr PatientProfileNotFound \<or>
    (\<exists>patient results.
       dashboard ss db = Inr (PatientResults patient results) \<and>
       ss_user_id ss = Some (u_id user) \<and>
       patient \<in> set (patients db) \<and> p_user_id patient = u_id user \<and>
       (\<forall>r \<in> set results.
          r \<in> set (lab_results db) \<and> patient_id r = p_id patient \<and>
          (distinct (map p_id (patients db)) \<longrightarrow>
             (\<forall>q \<in> set (patients db). p_id q = patient_id r \<longrightarrow> p_user_id q = u_id user))))"
proof (cases "find (\<lambda>p. p_user_id p = u_id user) (patients db)")
  case None
  then have "dashboard ss db = Inr PatientProfileNotFound"
    by (simp add: dashboard_patient [OF assms])
  then show ?thesis by (rule disjI1)
next
  case (Some patient)
  let ?results = "order_by_test_date_desc
      (filter (\<lambda>r. patient_id r = p_id patient) (lab_results db))"
  have d: "dashboard ss db = Inr (PatientResults patient ?results)"
    using Some by (simp add: dashboard_patient [OF assms])
  have sid: "ss_user_id ss = Some (u_id user)"
    using current_user_SomeD [OF assms(1)] by simp
  from find_SomeD [OF Some] have p: "patient \<in> set (patients db)" "p_user_id patient = u_id user"
    by simp_all
  have own: "r \<in> set (lab_results db) \<and> patient_id r = p_id patient"
    if "r \<in> set ?results" for r
    using that by (simp add: order_by_test_date_desc_def)
  have others: "p_user_id q = u_id user"
    if "r \<in> set ?results" "distinct (map p_id (patients db))" "q \<in> set (patients db)"
      "p_id q = patient_id r" for r q
  proof -
    from own [OF that(1)] that(4) have "p_id q = p_id patient" by simp
    from patient_key_unique [OF that(2) that(3) p(1) this] p(2) show ?thesis by simp
  qed
  have "dashboard ss db = Inr (PatientResults patient ?results) \<and>
       ss_user_id ss = Some (u_id user) \<and>
       patient \<in> set (patients db) \<and> p_user_id patient = u_id user \<and>
       (\<forall>r \<in> set ?results.
          r \<in> set (lab_results db) \<and> patient_id r = p_id patient \<and>
          (distinct (map p_id (patients db)) \<longrightarrow>
             (\<forall>q \<in> set (patients db). p_id q = patient_id r \<longrightarrow> p_user_id q = u_id user)))"
    using d sid p own others by blast
  then show ?thesis by blast
qed

theorem patient_dashboard_own_results_witness:
  "current_user two_patients_db p2_session = Some p2_user \<and>
   user_type p2_user = ''patient'' \<and>
   dashboard p2_session two_patients_db = Inr (PatientResults p2_patient [p2_result]) \<and>
   patient_id p2_result = p_id p2_patient \<and> p_user_id p2_patient = u_id p2_user"
proof -
  have cu: "current_user two_patients_db p2_session = Some p2_user"
    by (simp add: current_user_def logged_in_def get_user_def two_patients_db_def
        p2_session_def p1_user_def t1_user_def p2_user_def)
  have ut: "user_type p2_user = ''patient''"
    by (simp add: p2_user_def)
  have "dashboard p2_session two_patients_db =
      (case find (\<lambda>p. p_user_id p = u_id p2_user) (patients two_patients_db) of
         None \<Rightarrow> Inr PatientProfileNotFound
       | Some patient \<Rightarrow>
           Inr (PatientResults patient
             (order_by_test_date_desc
                (filter (\<lambda>r. patient_id r = p_id patient) (lab_results two_patients_db)))))"
    by (rule dashboard_patient [OF cu ut])
  also have "\<dots> = Inr (PatientResults p2_patient [p2_result])"
    by (simp add: two_patients_db_def p1_patient_def p2_patient_def p2_user_def
        p1_result_def p2_result_def order_by_test_date_desc_def)
  finally have d: "dashboard p2_session two_patients_db =
      Inr (PatientResults p2_patient [p2_result])" .
  from patient_dashboard_own_results [OF cu ut] d cu ut
  show ?thesis by (simp add: p2_result_def p2_patient_def p2_user_def)
qed

subsection \<open>C2: the upload is one unit\<close>



subsection \<open>C3: the size limit of 16 MiB\<close>

text \<open>
  Claim C3. For every payload of a file with an allowed name: a payload of exactly
  \<open>16 * 1024 * 1024\<close> bytes passes the size test, so that the result is never the
  too-large error, and it is stored under the generated name whenever that name can be
  written (no zero byte, at most 255 bytes); a strictly larger payload is rejected with
  the too-large error. Every oversize upload, whatever its name, is rejected, and the
  upload handler returns the database and the upload folder unchanged: no lab result, no
  notification, no new blob.
\<close>

theorem oversize_payload_rejected:
  "(allowed_file (name f) \<and> length (data f) = 16 * 1024 * 1024 \<longrightarrow>
      save_uploaded_file ts salt fs (Some f) \<noteq> Inl (ValueError ''File too large.'') \<and>
      (CHR 0x00 \<notin> set (unique_filename ts salt (name f)) \<and>
       length (unique_filename ts salt (name f)) \<le> 255 \<longrightarrow>
         save_uploaded_file ts salt fs (Some f) =
           Inr (unique_filename ts salt (name f),
                fs(unique_filename ts salt (name f) \<mapsto> data f)))) \<and>
   (length (data f) > 16 * 1024 * 1024 \<longrightarrow>
      (\<exists>e. save_uploaded_file ts salt fs (Some f) = Inl e) \<and>
      (allowed_file (name f) \<longrightarrow>
         save_uploaded_file ts salt fs (Some f) = Inl (ValueError ''File too large.'')) \<and>
      (\<exists>m. upload_result ts salt now ss db fs (form\<lparr>uf_uploaded_file := Some f\<rparr>) = (db, fs, m) \<and>
           (\<forall>s. m \<noteq> Success s)) \<and>
      (allowed_file (name f) \<and> logged_in ss \<and> ss_user_type ss = Some ''lab_tech'' \<and>
         patients db \<noteq> [] \<and> uf_test_type form \<noteq> [] \<longrightarrow>
       upload_result ts salt now ss db fs (form\<lparr>uf_uploaded_file := Some f\<rparr>) =
         (db, fs, Error ''Upload failed: File too large.'')))"
proof -
  let ?form = "form\<lparr>uf_uploaded_file := Some f\<rparr>"
  let ?n = "unique_filename ts salt (name f)"
  have pass: "save_uploaded_file ts salt fs (Some f) =
      (case write_blob fs ?n (data f) of Inl e \<Rightarrow> Inl e | Inr fs' \<Rightarrow> Inr (?n, fs'))"
    if "allowed_file (name f)" "length (data f) = 16 * 1024 * 1024"
    using that by (simp add: save_uploaded_file_def MAX_CONTENT_LENGTH_def Let_def)
  have a1: "save_uploaded_file ts salt fs (Some f) \<noteq> Inl (ValueError ''File too large.'')"
    if "allowed_file (name f)" "length (data f) = 16 * 1024 * 1024"
    by (simp add: pass [OF that] write_blob_def)
  have a2: "save_uploaded_file ts salt fs (Some f) = Inr (?n, fs(?n \<mapsto> data f))"
    if "allowed_file (name f)" "length (data f) = 16 * 1024 * 1024"
      "CHR 0x00 \<notin> set ?n" "length ?n \<le> 255"
    using that(3,4) by (simp add: pass [OF that(1,2)] write_blob_def NAME_MAX_def)
  have big: "length (data f) > 16 * 1024 * 1024 \<Longrightarrow>
      \<exists>e. save_uploaded_file ts salt fs (uf_uploaded_file ?form) = Inl e"
    by (simp add: save_uploaded_file_def MAX_CONTENT_LENGTH_def Let_def)
  have big_ok: "length (data f) > 16 * 1024 * 1024 \<Longrightarrow> allowed_file (name f) \<Longrightarrow>
      save_uploaded_file ts salt fs (uf_uploaded_file ?form) = Inl (ValueError ''File too large.'')"
    by (simp add: save_uploaded_file_def MAX_CONTENT_LENGTH_def Let_def)
  have b: "length (data f) > 16 * 1024 * 1024 \<Longrightarrow>
      \<exists>m. upload_result ts salt now ss db fs ?form = (db, fs, m) \<and> (\<forall>s. m \<noteq> Success s)"
    using big upload_result_save_fails by blast
  have c: "length (data f) > 16 * 1024 * 1024 \<Longrightarrow> allowed_file (name f) \<Longrightarrow> logged_in ss \<Longrightarrow>
      ss_user_type ss = Some ''lab_tech'' \<Longrightarrow> patients db \<noteq> [] \<Longrightarrow> uf_test_type form \<noteq> [] \<Longrightarrow>
      upload_result ts salt now ss db fs ?form = (db, fs, Error ''Upload failed: File too large.'')"
    using upload_result_save_fails_message [OF _ _ _ _ _ big_ok, of ss db now] by simp
  from a1 a2 big big_ok b c show ?thesis by auto
qed

theorem oversize_payload_rejected_witness:
  "allowed_file ''report.pdf'' \<and>
   length (replicate (16 * 1024 * 1024) (0 :: byte)) = 16 * 1024 * 1024 \<and>
   CHR 0x00 \<notin> set (unique_filename ''20240101120000'' ''a1b2c3d4e5f6'' ''report.pdf'') \<and>
   length (unique_filename ''20240101120000'' ''a1b2c3d4e5f6'' ''report.pdf'') \<le> 255 \<and>
   save_uploaded_file ''20240101120000'' ''a1b2c3d4e5f6'' Map.empty
       (Some \<lparr>name = ''report.pdf'', data = replicate (16 * 1024 * 1024) 0\<rparr>) =
     Inr (''20240101120000_a1b2c3d4e5f6_report.pdf'',
          [''20240101120000_a1b2c3d4e5f6_report.pdf'' \<mapsto> replicate (16 * 1024 * 1024) 0]) \<and>
   length (replicate (16 * 1024 * 1024 + 1) (0 :: byte)) > 16 * 1024 * 1024 \<and>
   save_uploaded_file ''20240101120000'' ''a1b2c3d4e5f6'' Map.empty
       (Some \<lparr>name = ''report.pdf'', data = replicate (16 * 1024 * 1024 + 1) 0\<rparr>) =
     Inl (ValueError ''File too large.'') \<and>
   upload_result ''20240101120000'' ''a1b2c3d4e5f6'' 0 t1_session portal_db Map.empty
       (cbc_form (Some \<lparr>name = ''report.pdf'', data = replicate (16 * 1024 * 1024 + 1) 0\<rparr>)) =
     (portal_db, Map.empty, Error ''Upload failed: File too large.'')"
proof -
  let ?ok = "\<lparr>name = ''report.pdf'', data = replicate (16 * 1024 * 1024) (0 :: byte)\<rparr>"
  let ?big = "\<lparr>name = ''report.pdf'', data = replicate (16 * 1024 * 1024 + 1) (0 :: byte)\<rparr>"
  have al: "allowed_file ''report.pdf''" by (rule allowed_file_report_pdf)
  have nm: "unique_filename ''20240101120000'' ''a1b2c3d4e5f6'' ''report.pdf''
      = ''20240101120000_a1b2c3d4e5f6_report.pdf''"
    by (simp add: unique_filename_def secure_filename_def replace_def)
  have w: "CHR 0x00 \<notin> set (unique_filename ''20240101120000'' ''a1b2c3d4e5f6'' ''report.pdf'')"
    "length (unique_filename ''20240101120000'' ''a1b2c3d4e5f6'' ''report.pdf'') \<le> 255"
    by (simp_all add: nm)
  have g: "logged_in t1_session \<and> ss_user_type t1_session = Some ''lab_tech'' \<and>
      patients portal_db \<noteq> [] \<and> uf_test_type (cbc_form None) \<noteq> []"
    by (simp add: logged_in_def t1_session_def portal_db_def cbc_form_def)
  have e: "(cbc_form None)\<lparr>uf_uploaded_file := Some ?big\<rparr> = cbc_form (Some ?big)"
    by (simp add: cbc_form_def)
  have l1: "length (data ?ok) = 16 * 1024 * 1024" by simp
  have l2: "length (data ?big) > 16 * 1024 * 1024" by simp
  from oversize_payload_rejected [of ?ok "''20240101120000''" "''a1b2c3d4e5f6''" Map.empty]
  have r1: "save_uploaded_file ''20240101120000'' ''a1b2c3d4e5f6'' Map.empty (Some ?ok) =
     Inr (''20240101120000_a1b2c3d4e5f6_report.pdf'',
          [''20240101120000_a1b2c3d4e5f6_report.pdf'' \<mapsto> replicate (16 * 1024 * 1024) 0])"
    using al l1 w nm by simp
  from oversize_payload_rejected [of ?big "''20240101120000''" "''a1b2c3d4e5f6''" Map.empty
      0 t1_session portal_db "cbc_form None"]
  have r2: "save_uploaded_file ''20240101120000'' ''a1b2c3d4e5f6'' Map.empty (Some ?big) =
       Inl (ValueError ''File too large.'') \<and>
     upload_result ''20240101120000'' ''a1b2c3d4e5f6'' 0 t1_session portal_db Map.empty
       (cbc_form (Some ?big)) = (portal_db, Map.empty, Error ''Upload failed: File too large.'')"
    using al l2 g e by simp
  from al w r1 r2 show ?thesis by simp
qed

subsection \<open>C4: an extension outside the allow-list\<close>

text \<open>
  Claim C4. For every file name whose last extension \<open>ext\<close> (the text after the last dot),
  lowered, is not one of pdf, png, jpg, jpeg, txt, doc, docx, \<open>save_uploaded_file\<close> raises
  the file-type error, which is not the error of an oversize payload, whatever the size
  of the payload. The upload handler then returns the database and the upload folder it
  was given, so nothing was written, and it never reports success; when the request
  reaches the file step (a lab technician's session, a patient to choose, a test type)
  the page shows that error.
\<close>

theorem unsupported_file_type_rejected:
  assumes "name f = base @ ''.'' @ ext" and "CHR ''.'' \<notin> set ext"
    and "lower ext \<notin> ALLOWED_EXTENSIONS"
  shows "save_uploaded_file ts salt fs (Some f) = Inl (ValueError ''File type not allowed.'') \<and>
    save_uploaded_file ts salt fs (Some f) \<noteq> Inl (ValueError ''File too large.'') \<and>
    (\<exists>m. upload_result ts salt now ss db fs (form\<lparr>uf_uploaded_file := Some f\<rparr>) = (db, fs, m) \<and>
         (\<forall>s. m \<noteq> Success s)) \<and>
    (logged_in ss \<and> ss_user_type ss = Some ''lab_tech'' \<and> patients db \<noteq> [] \<and>
       uf_test_type form \<noteq> [] \<longrightarrow>
     upload_result ts salt now ss db fs (form\<lparr>uf_uploaded_file := Some f\<rparr>) =
       (db, fs, Error ''Upload failed: File type not allowed.''))"
proof -
  have na: "\<not> allowed_file (name f)"
    using allowed_file_split [OF assms(1,2)] assms(3) by simp
  let ?form = "form\<lparr>uf_uploaded_file := Some f\<rparr>"
  have sv: "save_uploaded_file ts salt fs (uf_uploaded_file ?form)
      = Inl (ValueError ''File type not allowed.'')"
    using na by (simp add: save_not_allowed)
  have a: "save_uploaded_file ts salt fs (Some f) = Inl (ValueError ''File type not allowed.'')"
    using sv by simp
  have b: "save_uploaded_file ts salt fs (Some f) \<noteq> Inl (ValueError ''File too large.'')"
    by (simp add: a)
  have c: "\<exists>m. upload_result ts salt now ss db fs ?form = (db, fs, m) \<and> (\<forall>s. m \<noteq> Success s)"
    by (rule upload_result_save_fails [OF sv])
  have d: "logged_in ss \<and> ss_user_type ss = Some ''lab_tech'' \<and> patients db \<noteq> [] \<and>
       uf_test_type form \<noteq> [] \<longrightarrow>
     upload_result ts salt now ss db fs ?form =
       (db, fs, Error ''Upload failed: File type not allowed.'')"
    using upload_result_save_fails_message [OF _ _ _ _ _ sv, of ss db now] by simp
  from a b c d show ?thesis by blast
qed

theorem unsupported_file_type_rejected_witness:
  "name \<lparr>name = ''setup.exe'', data = []\<rparr> = ''setup'' @ ''.'' @ ''exe'' \<and>
   CHR ''.'' \<notin> set ''exe'' \<and> lower ''exe'' \<notin> ALLOWED_EXTENSIONS \<and>
   save_uploaded_file ''20240101120000'' ''a1b2c3d4e5f6'' Map.empty
       (Some \<lparr>name = ''setup.exe'', data = []\<rparr>) = Inl (ValueError ''File type not allowed.'') \<and>
   upload_result ''20240101120000'' ''a1b2c3d4e5f6'' 0 t1_session portal_db Map.empty
       (cbc_form (Some \<lparr>name = ''setup.exe'', data = []\<rparr>)) =
     (portal_db, Map.empty, Error ''Upload failed: File type not allowed.'')"
proof -
  let ?f = "\<lparr>name = ''setup.exe'', data = []\<rparr> :: uploaded_file"
  have h1: "name ?f = ''setup'' @ ''.'' @ ''exe''" by simp
  have h2: "CHR ''.'' \<notin> set ''exe''" by simp
  have h3: "lower ''exe'' \<notin> ALLOWED_EXTENSIONS"
    by (simp add: lower_def lower_char_def ALLOWED_EXTENSIONS_def)
  have g: "logged_in t1_session \<and> ss_user_type t1_session = Some ''lab_tech'' \<and>
      patients portal_db \<noteq> [] \<and> uf_test_type (cbc_form None) \<noteq> []"
    by (simp add: logged_in_def t1_session_def portal_db_def cbc_form_def)
  have e: "(cbc_form None)\<lparr>uf_uploaded_file := Some ?f\<rparr> = cbc_form (Some ?f)"
    by (simp add: cbc_form_def)
  from unsupported_file_type_rejected [OF h1 h2 h3, of "''20240101120000''" "''a1b2c3d4e5f6''"
      Map.empty 0 t1_session portal_db "cbc_form None"] g e h1 h2 h3
  show ?thesis by simp
qed

subsection \<open>C5: a licence number that is taken\<close>

text \<open>
  Claim C5. Registering a doctor whose \<open>license_number\<close> is that of a doctor in the
  database fails and leaves the database unchanged, so no user row of the attempt is
  kept: the handler never reports success; when the three required fields are filled the
  error is one of the three duplicate errors, and when moreover the user name and the
  email are free it is the error of the licence number.
\<close>

theorem duplicate_license_rejected:
  assumes "role form = ''doctor''" and "d \<in> set (doctors db)"
    and "license_number d = f_license_number form"
  shows "fst (register gen now db form) = db \<and>
    (\<forall>s. snd (register gen now db form) \<noteq> Success s) \<and>
    (f_username form \<noteq> [] \<and> f_email form \<noteq> [] \<and> f_password form \<noteq> [] \<longrightarrow>
       snd (register gen now db form) = Error ''Username already exists. Try another.'' \<or>
       snd (register gen now db form) = Error ''Email already exists. Try another.'' \<or>
       snd (register gen now db form) = Error ''License number already registered.'') \<and>
    (f_username form \<noteq> [] \<and> f_email form \<noteq> [] \<and> f_password form \<noteq> [] \<and>
     get_user_by_username db (f_username form) = None \<and>
     get_user_by_email db (f_email form) = None \<longrightarrow>
       register gen now db form = (db, Error ''License number already registered.''))"
proof -
  have dup: "get_doctor_by_license db (f_license_number form) \<noteq> None"
    by (rule get_doctor_by_license_member [OF assms(2,3)])
  have r: "register gen now db form =
     (if f_username form = [] \<or> f_email form = [] \<or> f_password form = []
        then (db, Error ''Username, email and password are required.'')
      else if get_user_by_username db (f_username form) \<noteq> None
        then (db, Error ''Username already exists. Try another.'')
      else if get_user_by_email db (f_email form) \<noteq> None
        then (db, Error ''Email already exists. Try another.'')
      else (db, Error ''License number already registered.''))"
    using dup assms(1) by (simp add: register_def)
  show ?thesis by (simp add: r)
qed

theorem duplicate_license_rejected_witness:
  "role (doctor_form ''d2'' ''Lisa'' ''LIC-001'') = ''doctor'' \<and>
   dr_house \<in> set (doctors clinic_db) \<and>
   license_number dr_house = f_license_number (doctor_form ''d2'' ''Lisa'' ''LIC-001'') \<and>
   register (\<lambda>p. ''hash-'' @ p) 0 clinic_db (doctor_form ''d2'' ''Lisa'' ''LIC-001'') =
     (clinic_db, Error ''License number already registered.'') \<and>
   users (fst (register (\<lambda>p. ''hash-'' @ p) 0 clinic_db (doctor_form ''d2'' ''Lisa'' ''LIC-001'')))
     = [p1_user, t1_user, d1_user]"
proof -
  let ?form = "doctor_form ''d2'' ''Lisa'' ''LIC-001''"
  have a: "role ?form = ''doctor''" by (simp add: doctor_form_def)
  have b: "dr_house \<in> set (doctors clinic_db)" by (simp add: clinic_db_def)
  have c: "license_number dr_house = f_license_number ?form"
    by (simp add: doctor_form_def dr_house_def)
  have g: "f_username ?form \<noteq> [] \<and> f_email ?form \<noteq> [] \<and> f_password ?form \<noteq> [] \<and>
     get_user_by_username clinic_db (f_username ?form) = None \<and>
     get_user_by_email clinic_db (f_email ?form) = None"
    by (simp add: doctor_form_def get_user_by_username_def get_user_by_email_def clinic_db_def
        p1_user_def t1_user_def d1_user_def)
  from duplicate_license_rejected [OF a b c, of "\<lambda>p. ''hash-'' @ p" 0] g
  have r: "register (\<lambda>p. ''hash-'' @ p) 0 clinic_db ?form =
     (clinic_db, Error ''License number already registered.'')"
    by blast
  have u: "users (fst (register (\<lambda>p. ''hash-'' @ p) 0 clinic_db ?form)) =
      [p1_user, t1_user, d1_user]"
    by (subst r) (simp add: clinic_db_def)
  from a b c r u show ?thesis by (intro conjI)
qed

subsection \<open>C6: failed logins\<close>

text \<open>
  Claim C6. For every pair of failing logins, one with a user name that matches no user
  and one with the name of a user and a password that \<open>check_password\<close> rejects, the
  handler gives the same result: the session state it was given and the same error
  message.
\<close>

theorem login_failures_indistinguishable:
  assumes "get_user_by_username db u1 = None"
    and "get_user_by_username db u2 = Some user"
    and "\<not> check_password chk user p2"
  shows "login chk db ss u1 p1 = login chk db ss u2 p2 \<and>
         login chk db ss u1 p1 = (ss, Error ''Login failed. Check username and password.'')"
  using assms by (simp add: login_def)

theorem login_failures_indistinguishable_witness:
  "get_user_by_username portal_db ''nobody'' = None \<and>
   get_user_by_username portal_db ''p1'' = Some p1_user \<and>
   \<not> check_password (\<lambda>h p. h = ''hash-'' @ p) p1_user ''wrong'' \<and>
   login (\<lambda>h p. h = ''hash-'' @ p) portal_db anonymous_session ''nobody'' ''anything'' =
     login (\<lambda>h p. h = ''hash-'' @ p) portal_db anonymous_session ''p1'' ''wrong'' \<and>
   login (\<lambda>h p. h = ''hash-'' @ p) portal_db anonymous_session ''nobody'' ''anything'' =
     (anonymous_session, Error ''Login failed. Check username and password.'')"
proof -
  have a: "get_user_by_username portal_db ''nobody'' = None"
    by (simp add: get_user_by_username_def portal_db_def p1_user_def t1_user_def)
  have b: "get_user_by_username portal_db ''p1'' = Some p1_user"
    by (simp add: get_user_by_username_def portal_db_def p1_user_def)
  have c: "\<not> check_password (\<lambda>h p. h = ''hash-'' @ p) p1_user ''wrong''"
    by (simp add: check_password_def p1_user_def)
  from login_failures_indistinguishable [OF a b c, of anonymous_session "''anything''"] a b c
  show ?thesis by blast
qed

subsection \<open>C7: the rows of a successful upload\<close>

text \<open>
  Claim C7. For every upload that reports success, the file was stored under a name
  \<open>saved_name\<close>, the database gained exactly one lab result and one notification, and:
  the lab result has status \<open>completed\<close>, file reference \<open>saved_name\<close> and, as lab
  technician, the user name of the session; the notification belongs to that lab result,
  has type \<open>portal\<close> and status \<open>sent\<close>, and its recipient is taken from the user of
  the patient of the form: \<open>patient\<close> is a row of the patient table whose key is the
  form's patient, \<open>user\<close> is a row of the user table whose key is that patient's
  \<open>user_id\<close> (the only such rows when the keys of the tables are unique), and the
  recipient is the phone of \<open>user\<close> when that is set and not empty, and the email of
  \<open>user\<close> otherwise.
\<close>

theorem successful_upload_rows:
  assumes "upload_result ts salt now ss db fs form = (db', fs', Success s)"
  shows "\<exists>saved_name patient user.
    save_uploaded_file ts salt fs (uf_uploaded_file form) = Inr (saved_name, fs') \<and>
    patient \<in> set (patients db) \<and> p_id patient = uf_patient_id form \<and>
    user \<in> set (users db) \<and> u_id user = p_user_id patient \<and>
    (distinct (map p_id (patients db)) \<longrightarrow>
       (\<forall>q \<in> set (patients db). p_id q = uf_patient_id form \<longrightarrow> q = patient)) \<and>
    (distinct (map u_id (users db)) \<longrightarrow>
       (\<forall>v \<in> set (users db). u_id v = p_user_id patient \<longrightarrow> v = user)) \<and>
    lab_results db' = lab_results db @
      [\<lparr>r_id = next_id (map r_id (lab_results db)), patient_id = uf_patient_id form,
        test_type = uf_test_type form,
        test_date = combine_midnight (uf_test_date form),
        result_date = combine_midnight (uf_result_date form),
        r_status = Some ''completed'', file_path = Some saved_name,
        r_notes = Some (uf_notes form), lab_technician = ss_username ss\<rparr>] \<and>
    notifications db' = notifications db @
      [\<lparr>n_id = next_id (map n_id (notifications db)),
        lab_result_id = next_id (map r_id (lab_results db)),
        notification_type = ''portal'', sent_at = Some now, n_status = Some ''sent'',
        recipient = (case phone user of
                       None \<Rightarrow> email user
                     | Some ph \<Rightarrow> if ph \<noteq> [] then ph else email user)\<rparr>] \<and>
    users db' = users db \<and> patients db' = patients db \<and> doctors db' = doctors db"
proof -
  from upload_result_success_checks [OF assms]
  have g: "logged_in ss" "ss_user_type ss = Some ''lab_tech''" "patients db \<noteq> []"
    "uf_test_type form \<noteq> []" by simp_all
  obtain saved_name fs1 where sv:
    "save_uploaded_file ts salt fs (uf_uploaded_file form) = Inr (saved_name, fs1)"
  proof (cases "save_uploaded_file ts salt fs (uf_uploaded_file form)")
    case (Inl e)
    from upload_result_save_fails [OF Inl, of now ss db] assms have False by auto
    then show ?thesis ..
  next
    case (Inr pr)
    then show ?thesis using that by (cases pr) simp
  qed
  obtain patient where p: "get_patient db (uf_patient_id form) = Some patient"
  proof (cases "get_patient db (uf_patient_id form)")
    case None
    from upload_result_patient_missing [OF g sv None, of now] assms have False by simp
    then show ?thesis ..
  next
    case (Some a)
    then show ?thesis using that by simp
  qed
  obtain user where u: "get_user db (p_user_id patient) = Some user"
  proof (cases "get_user db (p_user_id patient)")
    case None
    from upload_result_user_missing [OF g sv p None, of now] assms have False by simp
    then show ?thesis ..
  next
    case (Some a)
    then show ?thesis using that by simp
  qed
  note pm = get_patient_SomeD [OF p]
  note um = get_user_SomeD [OF u]
  have pu: "distinct (map p_id (patients db)) \<longrightarrow>
       (\<forall>q \<in> set (patients db). p_id q = uf_patient_id form \<longrightarrow> q = patient)"
    using pm patient_key_unique [of "patients db" _ patient] by auto
  have uu: "distinct (map u_id (users db)) \<longrightarrow>
       (\<forall>v \<in> set (users db). u_id v = p_user_id patient \<longrightarrow> v = user)"
    using um user_key_unique [of "users db" _ user] by auto
  let ?r = "\<lparr>r_id = next_id (map r_id (lab_results db)), patient_id = uf_patient_id form,
        test_type = uf_test_type form,
        test_date = combine_midnight (uf_test_date form),
        result_date = combine_midnight (uf_result_date form),
        r_status = Some ''completed'', file_path = Some saved_name,
        r_notes = Some (uf_notes form), lab_technician = ss_username ss\<rparr>"
  let ?n = "\<lparr>n_id = next_id (map n_id (notifications db)),
        lab_result_id = next_id (map r_id (lab_results db)),
        notification_type = ''portal'', sent_at = Some now, n_status = Some ''sent'',
        recipient = (case phone user of
                       None \<Rightarrow> email user
                     | Some ph \<Rightarrow> if ph \<noteq> [] then ph else email user)\<rparr>"
  from upload_result_succeeds [OF g sv p u, of now] assms
  have e: "db' = db\<lparr>lab_results := lab_results db @ [?r],
      notifications := notifications db @ [?n]\<rparr>" "fs' = fs1"
    by simp_all
  have "save_uploaded_file ts salt fs (uf_uploaded_file form) = Inr (saved_name, fs') \<and>
    patient \<in> set (patients db) \<and> p_id patient = uf_patient_id form \<and>
    user \<in> set (users db) \<and> u_id user = p_user_id patient \<and>
    (distinct (map p_id (patients db)) \<longrightarrow>
       (\<forall>q \<in> set (patients db). p_id q = uf_patient_id form \<longrightarrow> q = patient)) \<and>
    (distinct (map u_id (users db)) \<longrightarrow>
       (\<forall>v \<in> set (users db). u_id v = p_user_id patient \<longrightarrow> v = user)) \<and>
    lab_results db' = lab_results db @ [?r] \<and>
    notifications db' = notifications db @ [?n] \<and>
    users db' = users db \<and> patients db' = patients db \<and> doctors db' = doctors db"
    using sv pm um pu uu e by simp
  then show ?thesis by (intro exI [of _ saved_name] exI [of _ patient] exI [of _ user])
qed

theorem successful_upload_rows_witness:
  "upload_result ''20240101120000'' ''a1b2c3d4e5f6'' 1704110400 t1_session two_patients_db
      Map.empty (mri_form (Some report_pdf)) =
    (two_patients_db\<lparr>lab_results := [p1_result, p2_result, mri_result],
       notifications := [mri_notification]\<rparr>,
     [''20240101120000_a1b2c3d4e5f6_report.pdf'' \<mapsto> replicate 120 0],
     Success ''Lab result uploaded successfully.'') \<and>
   patients two_patients_db = [p1_patient, p2_patient] \<and>
   p_id p1_patient \<noteq> uf_patient_id (mri_form (Some report_pdf)) \<and>
   p_id p2_patient = uf_patient_id (mri_form (Some report_pdf)) \<and>
   u_id p2_user = p_user_id p2_patient \<and>
   phone p2_user = Some ''0700000002'' \<and>
   r_status mri_result = Some ''completed'' \<and>
   file_path mri_result = Some ''20240101120000_a1b2c3d4e5f6_report.pdf'' \<and>
   lab_technician mri_result = ss_username t1_session \<and>
   lab_result_id mri_notification = r_id mri_result \<and>
   notification_type mri_notification = ''portal'' \<and>
   n_status mri_notification = Some ''sent'' \<and>
   recipient mri_notification = ''0700000002'' \<and>
   upload_result ''20240101120000'' ''a1b2c3d4e5f6'' 1704110400 t1_session portal_db Map.empty
      (cbc_form (Some report_pdf)) =
    (portal_db\<lparr>lab_results := [cbc_result], notifications := [cbc_notification]\<rparr>,
     [''20240101120000_a1b2c3d4e5f6_report.pdf'' \<mapsto> replicate 120 0],
     Success ''Lab result uploaded successfully.'') \<and>
   phone p1_user = Some [] \<and>
   recipient cbc_notification = email p1_user"
proof -
  let ?db2 = "two_patients_db\<lparr>lab_results := [p1_result, p2_result, mri_result],
       notifications := [mri_notification]\<rparr>"
  let ?db1 = "portal_db\<lparr>lab_results := [cbc_result], notifications := [cbc_notification]\<rparr>"
  have ps: "patients two_patients_db = [p1_patient, p2_patient]"
    by (simp add: two_patients_db_def)
  have k1: "p_id p1_patient \<noteq> uf_patient_id (mri_form (Some report_pdf))"
    by (simp add: p1_patient_def mri_form_def)
  have k2: "p_id p2_patient = uf_patient_id (mri_form (Some report_pdf))"
    by (simp add: p2_patient_def mri_form_def)
  have k3: "u_id p2_user = p_user_id p2_patient"
    by (simp add: p2_user_def p2_patient_def)
  have ph2: "phone p2_user = Some ''0700000002''" by (simp add: p2_user_def)
  have ph1: "phone p1_user = Some []" by (simp add: p1_user_def)
  from successful_upload_rows [OF upload_mri_report]
  obtain saved_name patient user where
    sv: "save_uploaded_file ''20240101120000'' ''a1b2c3d4e5f6'' Map.empty
          (uf_uploaded_file (mri_form (Some report_pdf))) =
         Inr (saved_name, [''20240101120000_a1b2c3d4e5f6_report.pdf'' \<mapsto> replicate 120 0])"
    and p: "patient \<in> set (patients two_patients_db)"
      "p_id patient = uf_patient_id (mri_form (Some report_pdf))"
    and u: "user \<in> set (users two_patients_db)" "u_id user = p_user_id patient"
    and r: "lab_results ?db2 = lab_results two_patients_db @
      [\<lparr>r_id = next_id (map r_id (lab_results two_patients_db)),
        patient_id = uf_patient_id (mri_form (Some report_pdf)),
        test_type = uf_test_type (mri_form (Some report_pdf)),
        test_date = combine_midnight (uf_test_date (mri_form (Some report_pdf))),
        result_date = combine_midnight (uf_result_date (mri_form (Some report_pdf))),
        r_status = Some ''completed'', file_path = Some saved_name,
        r_notes = Some (uf_notes (mri_form (Some report_pdf))),
        lab_technician = ss_username t1_session\<rparr>]"
    and n: "notifications ?db2 = notifications two_patients_db @
      [\<lparr>n_id = next_id (map n_id (notifications two_patients_db)),
        lab_result_id = next_id (map r_id (lab_results two_patients_db)),
        notification_type = ''portal'', sent_at = Some 1704110400, n_status = Some ''sent'',
        recipient = (case phone user of
                       None \<Rightarrow> email user
                     | Some ph \<Rightarrow> if ph \<noteq> [] then ph else email user)\<rparr>]"
    by blast
  from sv have s: "saved_name = ''20240101120000_a1b2c3d4e5f6_report.pdf''"
    by (simp add: mri_form_def save_report_pdf)
  from p k1 have pp: "patient = p2_patient"
    by (auto simp: ps)
  from u pp have uu: "user = p2_user"
    by (auto simp: two_patients_db_def p2_patient_def p1_user_def t1_user_def)
  have lr: "last (lab_results ?db2) = mri_result" by simp
  have ln: "last (notifications ?db2) = mri_notification" by simp
  have r1: "r_status (last (lab_results ?db2)) = Some ''completed''"
    by (subst r) simp
  have r2: "file_path (last (lab_results ?db2)) = Some ''20240101120000_a1b2c3d4e5f6_report.pdf''"
    by (subst r) (simp add: s)
  have r3: "lab_technician (last (lab_results ?db2)) = ss_username t1_session"
    by (subst r) simp
  have r4: "r_id (last (lab_results ?db2)) = lab_result_id (last (notifications ?db2))"
    by (subst r, subst n) simp
  have n1: "notification_type (last (notifications ?db2)) = ''portal''"
    by (subst n) simp
  have n2: "n_status (last (notifications ?db2)) = Some ''sent''"
    by (subst n) simp
  have n3: "recipient (last (notifications ?db2)) = ''0700000002''"
    by (subst n) (simp add: uu ph2)
  from successful_upload_rows [OF upload_cbc_report]
  obtain patient1 user1 where
    p1: "patient1 \<in> set (patients portal_db)"
    and u1: "user1 \<in> set (users portal_db)" "u_id user1 = p_user_id patient1"
    and m: "notifications ?db1 = notifications portal_db @
      [\<lparr>n_id = next_id (map n_id (notifications portal_db)),
        lab_result_id = next_id (map r_id (lab_results portal_db)),
        notification_type = ''portal'', sent_at = Some 1704110400, n_status = Some ''sent'',
        recipient = (case phone user1 of
                       None \<Rightarrow> email user1
                     | Some ph \<Rightarrow> if ph \<noteq> [] then ph else email user1)\<rparr>]"
    by blast
  from p1 have pp1: "patient1 = p1_patient" by (simp add: portal_db_def)
  from u1 pp1 have uu1: "user1 = p1_user"
    by (auto simp: portal_db_def p1_patient_def t1_user_def)
  have lc: "last (notifications ?db1) = cbc_notification" by simp
  have m3: "recipient (last (notifications ?db1)) = email p1_user"
    by (subst m) (simp add: uu1 ph1)
  from upload_mri_report ps k1 k2 k3 ph2 r1 [unfolded lr] r2 [unfolded lr] r3 [unfolded lr]
    r4 [unfolded lr ln, symmetric] n1 [unfolded ln] n2 [unfolded ln] n3 [unfolded ln]
    upload_cbc_report ph1 m3 [unfolded lc]
  show ?thesis by (intro conjI)
qed

subsection \<open>C8: the fields that registration requires\<close>

text \<open>
  Claim C8, as amended. For every role, registration fails with the validation error,
  before any write, when the user name, the email or the password is empty. No field of
  the profile is validated for presence: the validation error is reported in no other
  case, and the message of the handler does not depend on the first name, the last name,
  the date of birth, the gender or the specialization.
\<close>

theorem register_required_fields:
  "(f_username form = [] \<or> f_email form = [] \<or> f_password form = [] \<longrightarrow>
      register gen now db form = (db, Error ''Username, email and password are required.'')) \<and>
   (snd (register gen now db form) = Error ''Username, email and password are required.'' \<longrightarrow>
      f_username form = [] \<or> f_email form = [] \<or> f_password form = []) \<and>
   snd (register gen now db
          (form\<lparr>f_first_name := fn, f_last_name := ln, f_dob := dob, f_gender := g,
             f_specialization := sp\<rparr>)) =
     snd (register gen now db form)"
proof -
  have a: "f_username form = [] \<or> f_email form = [] \<or> f_password form = [] \<Longrightarrow>
      register gen now db form = (db, Error ''Username, email and password are required.'')"
    by (simp add: register_def)
  have b: "snd (register gen now db form) \<noteq> Error ''Username, email and password are required.''"
    if "\<not> (f_username form = [] \<or> f_email form = [] \<or> f_password form = [])"
    using that
    by (simp add: register_def Let_def insert_patient_def split: sum.splits prod.splits)
  have c: "snd (register gen now db
          (form\<lparr>f_first_name := fn, f_last_name := ln, f_dob := dob, f_gender := g,
             f_specialization := sp\<rparr>)) =
     snd (register gen now db form)"
    by (auto simp: register_def Let_def set_password_def insert_user_def insert_patient_def
        insert_doctor_def)
  from a b c show ?thesis by blast
qed

theorem register_required_fields_witness:
  "f_password ((doctor_form ''d2'' ''Lisa'' ''LIC-002'')\<lparr>f_password := []\<rparr>) = [] \<and>
   register (\<lambda>p. ''hash-'' @ p) 0 clinic_db
       ((doctor_form ''d2'' ''Lisa'' ''LIC-002'')\<lparr>f_password := []\<rparr>) =
     (clinic_db, Error ''Username, email and password are required.'')"
proof -
  let ?form = "(doctor_form ''d2'' ''Lisa'' ''LIC-002'')\<lparr>f_password := []\<rparr>"
  have h: "f_password ?form = []" by simp
  from register_required_fields [of ?form "\<lambda>p. ''hash-'' @ p" 0 clinic_db] h
  have "register (\<lambda>p. ''hash-'' @ p) 0 clinic_db ?form =
     (clinic_db, Error ''Username, email and password are required.'')"
    by blast
  with h show ?thesis by (intro conjI)
qed

text \<open>
  Claim C8 as stated fails. In the portal with one doctor, a patient who leaves first and
  last name empty and a doctor who leaves first name, last name, specialization and
  licence number empty are both registered, with the empty strings in their rows.
\<close>

theorem register_accepts_blank_profile:
  "register (\<lambda>p. ''hash-'' @ p) 1700000000 clinic_db (patient_form ''p3'' []) =
     (clinic_db\<lparr>users := [p1_user, t1_user, d1_user,
          \<lparr>u_id = 5, username = ''p3'', email = ''p3@example.org'',
           password_hash = Some ''hash-secret'', user_type = ''patient'', phone = Some [],
           created_at = Some 1700000000\<rparr>],
        patients := [p1_patient,
          \<lparr>p_id = 2, p_user_id = 5, p_first_name = [], p_last_name = [],
           date_of_birth = 19000, gender = ''male'', address = Some [],
           emergency_contact = Some []\<rparr>]\<rparr>,
      Success ''Registration successful! You can now login.'') \<and>
   register (\<lambda>p. ''hash-'' @ p) 1700000000 clinic_db (doctor_form ''d2'' [] []) =
     (clinic_db\<lparr>users := [p1_user, t1_user, d1_user,
          \<lparr>u_id = 5, username = ''d2'', email = ''d2@example.org'',
           password_hash = Some ''hash-secret'', user_type = ''doctor'', phone = Some [],
           created_at = Some 1700000000\<rparr>],
        doctors := [dr_house,
          \<lparr>d_id = 2, d_user_id = 5, d_first_name = [], d_last_name = [],
           specialization = [], license_number = [], hospital = Some []\<rparr>]\<rparr>,
      Success ''Registration successful! You can now login.'')"
  by (simp add: register_def set_password_def insert_user_def insert_doctor_def
      get_user_by_username_def get_user_by_email_def get_doctor_by_license_def next_id_def
      Let_def doctor_form_def patient_form_def insert_patient_def clinic_db_def
      p1_patient_def p1_user_def t1_user_def d1_user_def dr_house_def)

subsection \<open>C9: generated file names\<close>

text \<open>
  Claim C9, as amended. For a timestamp of fourteen digits and a salt of twelve
  hexadecimal digits, two generated names are equal exactly when the timestamps, the
  salts and the sanitised file names are equal: two calls give different names whenever
  their timestamps or their salts differ. Every generated name is free of the slash, the
  backslash and the space, and is neither \<open>.\<close> nor \<open>..\<close>.
\<close>

theorem unique_filename_distinct_and_safe:
  assumes "is_timestamp ts1" and "is_timestamp ts2"
    and "is_token_hex6 s1" and "is_token_hex6 s2"
  shows "(unique_filename ts1 s1 f1 = unique_filename ts2 s2 f2 \<longleftrightarrow>
            ts1 = ts2 \<and> s1 = s2 \<and> secure_filename f1 = secure_filename f2) \<and>
         CHR ''/'' \<notin> set (unique_filename ts1 s1 f1) \<and>
         CHR 0x5C \<notin> set (unique_filename ts1 s1 f1) \<and>
         CHR '' '' \<notin> set (unique_filename ts1 s1 f1) \<and>
         unique_filename ts1 s1 f1 \<noteq> ''.'' \<and> unique_filename ts1 s1 f1 \<noteq> ''..''"
proof -
  have lt: "length ts1 = length ts2" using assms by (simp add: is_timestamp_def)
  have ls: "length s1 = length s2" using assms by (simp add: is_token_hex6_def)
  have inj: "unique_filename ts1 s1 f1 = unique_filename ts2 s2 f2 \<longleftrightarrow>
            ts1 = ts2 \<and> s1 = s2 \<and> secure_filename f1 = secure_filename f2"
    using lt ls by (simp add: unique_filename_def)
  have safe: "CHR ''/'' \<notin> set (unique_filename ts1 s1 f1) \<and>
         CHR 0x5C \<notin> set (unique_filename ts1 s1 f1) \<and>
         CHR '' '' \<notin> set (unique_filename ts1 s1 f1)"
    using timestamp_safe [OF assms(1)] token_safe [OF assms(3)] secure_filename_chars [of f1]
    by (simp add: unique_filename_def)
  have len: "length (unique_filename ts1 s1 f1) \<ge> 14"
    using assms(1) by (simp add: unique_filename_def is_timestamp_def)
  have nd1: "unique_filename ts1 s1 f1 \<noteq> ''.''"
  proof
    assume "unique_filename ts1 s1 f1 = ''.''"
    then have "length (unique_filename ts1 s1 f1) = length ''.''" by (rule arg_cong)
    with len show False by simp
  qed
  have nd2: "unique_filename ts1 s1 f1 \<noteq> ''..''"
  proof
    assume "unique_filename ts1 s1 f1 = ''..''"
    then have "length (unique_filename ts1 s1 f1) = length ''..''" by (rule arg_cong)
    with len show False by simp
  qed
  note nd = conjI [OF nd1 nd2]
  from inj safe nd show ?thesis by (intro conjI) simp_all
qed

theorem unique_filename_distinct_and_safe_witness:
  "is_timestamp ''20240101120000'' \<and> is_token_hex6 ''a1b2c3d4e5f6'' \<and>
   is_token_hex6 ''0f9e8d7c6b5a'' \<and>
   unique_filename ''20240101120000'' ''a1b2c3d4e5f6'' ''my report.pdf'' \<noteq>
     unique_filename ''20240101120000'' ''0f9e8d7c6b5a'' ''my report.pdf'' \<and>
   CHR ''/'' \<notin> set (unique_filename ''20240101120000'' ''a1b2c3d4e5f6'' ''my report.pdf'') \<and>
   CHR '' '' \<notin> set (unique_filename ''20240101120000'' ''a1b2c3d4e5f6'' ''my report.pdf'')"
  using unique_filename_distinct_and_safe [OF ex_ts ex_ts ex_salt ex_salt2,
      of "''my report.pdf''" "''my report.pdf''"] ex_ts ex_salt ex_salt2
  by simp

text \<open>
  Claim C9 as stated fails. The generated name is a function of the timestamp, the salt and
  the file name, so two calls in the same second that draw the same salt for the same file
  name both produce the name below; and a tab (character \<open>0x09\<close>) of the original file
  name, which is whitespace, is still in the generated name.
\<close>

theorem unique_filename_counterexample:
  "unique_filename ''20240101120000'' ''a1b2c3d4e5f6'' ''report.pdf'' =
     ''20240101120000_a1b2c3d4e5f6_report.pdf'' \<and>
   CHR 0x09 \<in> set (unique_filename ''20240101120000'' ''a1b2c3d4e5f6''
     (''my'' @ [CHR 0x09] @ ''report.pdf''))"
  by (simp add: unique_filename_def secure_filename_def replace_def)

subsection \<open>C10: a file name without a dot\<close>

text \<open>
  Claim C10. For every file name that contains no dot, \<open>allowed_file\<close> returns False, and
  the upload path rejects the file: \<open>save_uploaded_file\<close> raises its file-type error
  whatever the payload, and the upload handler changes neither the database nor the upload
  folder and does not report success.
\<close>

theorem allowed_file_without_dot:
  assumes "CHR ''.'' \<notin> set (name f)"
  shows "\<not> allowed_file (name f) \<and>
    save_uploaded_file ts salt fs (Some f) = Inl (ValueError ''File type not allowed.'') \<and>
    (\<exists>m. upload_result ts salt now ss db fs (form\<lparr>uf_uploaded_file := Some f\<rparr>) = (db, fs, m) \<and>
         (\<forall>s. m \<noteq> Success s))"
proof -
  have na: "\<not> allowed_file (name f)"
    using assms by (simp add: allowed_file_def)
  have sv: "save_uploaded_file ts salt fs (uf_uploaded_file (form\<lparr>uf_uploaded_file := Some f\<rparr>))
      = Inl (ValueError ''File type not allowed.'')"
    using na by (simp add: save_not_allowed)
  from upload_result_save_fails [OF sv] sv na show ?thesis by simp
qed

theorem allowed_file_without_dot_witness:
  "CHR ''.'' \<notin> set (name \<lparr>name = ''README'', data = []\<rparr>) \<and>
   \<not> allowed_file (name \<lparr>name = ''README'', data = []\<rparr>) \<and>
   save_uploaded_file ''20240101120000'' ''a1b2c3d4e5f6'' Map.empty
       (Some \<lparr>name = ''README'', data = []\<rparr>) = Inl (ValueError ''File type not allowed.'')"
proof -
  have h: "CHR ''.'' \<notin> set (name \<lparr>name = ''README'', data = ([] :: byte list)\<rparr>)"
    by simp
  from allowed_file_without_dot [OF h, of "''20240101120000''" "''a1b2c3d4e5f6''" Map.empty] h
  show ?thesis by simp
qed

end
